theory Spec2Isabelle
  imports Complex_Main
begin

section \<open>Python values, exceptions and the model classes\<close>

text \<open>
  The values that travel between the datastore, the Supabase client and the backend are
  dynamically typed Python values. \<open>PEnum s\<close> is a member of one of the \<open>(str, Enum)\<close>
  classes of \<open>models/models.py\<close> whose \<open>.value\<close> is \<open>s\<close>; \<open>PDatetime t\<close> is a
  \<open>datetime\<close> object, named by a number. A dict is an association list in insertion
  order. Python floats are idealised as reals: the code only passes them on.
\<close>

datatype pyval =
    PNone
  | PBool bool
  | PInt int
  | PFloat real
  | PStr string
  | PEnum string
  | PDatetime int
  | PTuple "pyval list"
  | PList "pyval list"
  | PDict "(string \<times> pyval) list"

datatype exn =
    AttributeError
  | IndexError
  | KeyError string
  | TypeError
  | ValueError
  | ValidationError
  | BackendError string
  | HTTPException nat string

datatype Source = EMAIL | FILE | CHAT

datatype CommandStatus = NEW | PROCESSING | COMPLETED | ABANDONED | ERROR

datatype CommandType = CREATE_NOTE | MODIFY_NOTE | DELETE_NOTE

fun Source_value :: "Source \<Rightarrow> string" where
  "Source_value EMAIL = ''EMAIL''"
| "Source_value FILE = ''FILE''"
| "Source_value CHAT = ''CHAT''"

fun CommandStatus_value :: "CommandStatus \<Rightarrow> string" where
  "CommandStatus_value NEW = ''NEW''"
| "CommandStatus_value PROCESSING = ''PROCESSING''"
| "CommandStatus_value COMPLETED = ''COMPLETED''"
| "CommandStatus_value ABANDONED = ''ABANDONED''"
| "CommandStatus_value ERROR = ''ERROR''"

fun CommandType_value :: "CommandType \<Rightarrow> string" where
  "CommandType_value CREATE_NOTE = ''CREATE_NOTE''"
| "CommandType_value MODIFY_NOTE = ''MODIFY_NOTE''"
| "CommandType_value DELETE_NOTE = ''DELETE_NOTE''"

record DocumentMetadata =
  md_source :: "Source option"
  md_source_id :: "string option"
  md_url :: "string option"
  md_created_at :: "string option"
  md_author :: "string option"

record DocumentChunkMetadata = DocumentMetadata +
  md_document_id :: "string option"

record DocumentChunk =
  chunk_id :: "string option"
  chunk_text :: string
  chunk_metadata :: DocumentChunkMetadata
  chunk_embedding :: "real list option"

record DocumentChunkWithScore = DocumentChunk +
  chunk_score :: real

record DocumentMetadataFilter =
  flt_document_id :: "string option"
  flt_source :: "Source option"
  flt_source_id :: "string option"
  flt_author :: "string option"
  flt_start_date :: "string option"
  flt_end_date :: "string option"

record QueryWithEmbedding =
  q_query :: string
  q_filter :: "DocumentMetadataFilter option"
  q_top_k :: "int option"
  q_embedding :: "real list"

record QueryResult =
  qr_query :: string
  qr_results :: "DocumentChunkWithScore list"

record CommandContent =
  cc_text :: string
  cc_metadata :: DocumentMetadata

record Command =
  cmd_id :: "string option"
  cmd_status :: CommandStatus
  cmd_errors :: "string option"
  cmd_created_at :: "string option"
  cmd_updated_at :: "string option"

record CommandWithContent = Command +
  cmd_type :: CommandType
  cmd_content :: CommandContent

record CommandResponse =
  resp_id :: string
  resp_errors :: "string option"

subsection \<open>Python primitives used by the source\<close>

text \<open>Truth value testing, as \<open>if x:\<close> does it.\<close>

fun truthy :: "pyval \<Rightarrow> bool" where
  "truthy PNone = False"
| "truthy (PBool b) = b"
| "truthy (PInt i) = (i \<noteq> 0)"
| "truthy (PFloat r) = (r \<noteq> 0)"
| "truthy (PStr s) = (s \<noteq> [])"
| "truthy (PEnum s) = (s \<noteq> [])"
| "truthy (PDatetime t) = True"
| "truthy (PTuple xs) = (xs \<noteq> [])"
| "truthy (PList xs) = (xs \<noteq> [])"
| "truthy (PDict kvs) = (kvs \<noteq> [])"

text \<open>Truth of an \<open>Optional[str]\<close> attribute: \<open>None\<close> and the empty string are false.\<close>

fun truthy_str :: "string option \<Rightarrow> bool" where
  "truthy_str None = False"
| "truthy_str (Some s) = (s \<noteq> [])"

text \<open>Truth of an \<open>Optional[List[str]]\<close> argument: \<open>None\<close> and the empty list are false.\<close>

fun truthy_list :: "'a list option \<Rightarrow> bool" where
  "truthy_list None = False"
| "truthy_list (Some xs) = (xs \<noteq> [])"

text \<open>\<open>d[k] = v\<close>: replaces the value of an existing key in place, appends a new key.\<close>

fun dict_set :: "(string \<times> pyval) list \<Rightarrow> string \<Rightarrow> pyval \<Rightarrow> (string \<times> pyval) list" where
  "dict_set [] k v = [(k, v)]"
| "dict_set ((k', v') # kvs) k v =
     (if k' = k then (k, v) # kvs else (k', v') # dict_set kvs k v)"

text \<open>\<open>d[k]\<close> raises \<open>KeyError\<close> on a missing key.\<close>

definition dict_get :: "(string \<times> pyval) list \<Rightarrow> string \<Rightarrow> exn + pyval" where
  "dict_get kvs k = (case map_of kvs k of None \<Rightarrow> Inl (KeyError k) | Some v \<Rightarrow> Inr v)"

text \<open>\<open>x[0]\<close> on the values the source subscripts: a sequence or a string.\<close>

fun py_index0 :: "pyval \<Rightarrow> exn + pyval" where
  "py_index0 (PTuple []) = Inl IndexError"
| "py_index0 (PTuple (x # xs)) = Inr x"
| "py_index0 (PList []) = Inl IndexError"
| "py_index0 (PList (x # xs)) = Inr x"
| "py_index0 (PStr []) = Inl IndexError"
| "py_index0 (PStr (c # cs)) = Inr (PStr [c])"
| "py_index0 (PEnum []) = Inl IndexError"
| "py_index0 (PEnum (c # cs)) = Inr (PStr [c])"
| "py_index0 (PDict kvs) = Inl (KeyError ''0'')"
| "py_index0 v = Inl TypeError"

text \<open>
  \<open>x.isoformat()\<close>: only a \<open>datetime\<close> has the method. The rendering of the timestamp
  is the standard library's and is a parameter.
\<close>

fun py_isoformat :: "(int \<Rightarrow> string) \<Rightarrow> pyval \<Rightarrow> exn + pyval" where
  "py_isoformat fmt (PDatetime t) = Inr (PStr (fmt t))"
| "py_isoformat fmt v = Inl AttributeError"

fun opt_str :: "string option \<Rightarrow> pyval" where
  "opt_str None = PNone"
| "opt_str (Some s) = PStr s"

fun opt_Source :: "Source option \<Rightarrow> pyval" where
  "opt_Source None = PNone"
| "opt_Source (Some s) = PEnum (Source_value s)"

section \<open>SupabaseClient: the serialization adapter\<close>

text \<open>
  \<open>SupabaseClient._convert_object_to_serializable_json\<close>: a dict keeps the items whose
  value is not \<open>None\<close> and converts their values, a list converts its elements, an enum
  member becomes its value, anything else (a tuple and a datetime too) is returned as it is.
\<close>

fun convert_object_to_serializable_json :: "pyval \<Rightarrow> pyval"
  and convert_items :: "(string \<times> pyval) list \<Rightarrow> (string \<times> pyval) list"
  and convert_elems :: "pyval list \<Rightarrow> pyval list" where
  "convert_object_to_serializable_json (PDict kvs) = PDict (convert_items kvs)"
| "convert_object_to_serializable_json (PList xs) = PList (convert_elems xs)"
| "convert_object_to_serializable_json (PEnum s) = PStr s"
| "convert_object_to_serializable_json PNone = PNone"
| "convert_object_to_serializable_json (PBool b) = PBool b"
| "convert_object_to_serializable_json (PInt i) = PInt i"
| "convert_object_to_serializable_json (PFloat r) = PFloat r"
| "convert_object_to_serializable_json (PStr s) = PStr s"
| "convert_object_to_serializable_json (PDatetime t) = PDatetime t"
| "convert_object_to_serializable_json (PTuple xs) = PTuple xs"
| "convert_items [] = []"
| "convert_items ((k, v) # kvs) =
     (if v = PNone then convert_items kvs
      else (k, convert_object_to_serializable_json v) # convert_items kvs)"
| "convert_elems [] = []"
| "convert_elems (x # xs) = convert_object_to_serializable_json x # convert_elems xs"

section \<open>The backend and the world\<close>

text \<open>
  The storage backend is an external collaborator. Every request built with the Supabase
  library ends in \<open>.execute()\<close>; a request is a \<open>call\<close>. The world holds the wall
  clock and the trace of what happened: the requests executed, the sleeps and the records
  written by \<open>logger.error\<close> (\<open>logger.info\<close> records are left out). The backend answers
  a request from the world it is executed in, with the rows of \<open>response.data\<close> or with
  an exception, and takes some time to do so.
\<close>

datatype predicate =
    Like string string
  | In_set string "string list"
  | Eq string pyval
  | Gte string pyval
  | Lte string pyval

datatype call =
    TableUpsert string pyval
  | TableUpdate string pyval pyval
  | TableSelect string string string
  | TableDelete string "predicate list"
  | Rpc string "(string \<times> pyval) list"

datatype event = Call call | Slept nat | LogError "exn option"

record world =
  now :: int
  log :: "event list"

record backend =
  respond :: "world \<Rightarrow> call \<Rightarrow> exn + pyval list"
  latency :: "world \<Rightarrow> call \<Rightarrow> nat"

text \<open>
  Library functions the source calls and does not define. \<open>services.date.to_unix_timestamp\<close>
  and \<open>datetime.fromtimestamp\<close> may raise on a date string or a timestamp they do not
  accept. \<open>format_error e\<close> is what the logger raises, if anything, when it formats the
  message \<open>"Got exception in supabase_datastore.py: " + str(e)\<close> with the argument \<open>e\<close>:
  the logger applies \<open>str.format\<close> to a message that comes with arguments, which raises
  when the text of the exception holds braces. Then \<open>datetime.isoformat\<close>, the conversions
  of \<open>float\<close>, and the pydantic constructors that validate their keyword arguments.
\<close>

record pylib =
  to_unix_timestamp :: "string \<Rightarrow> exn + int"
  fromtimestamp :: "int \<Rightarrow> exn + int"
  isoformat :: "int \<Rightarrow> string"
  format_error :: "exn \<Rightarrow> exn option"
  float_of_str :: "string \<Rightarrow> real option"
  float_of_int :: "int \<Rightarrow> real"
  new_Command :: "(string \<times> pyval) list \<Rightarrow> exn + Command"
  new_DocumentChunkMetadata :: "(string \<times> pyval) list \<Rightarrow> exn + DocumentChunkMetadata"
  new_DocumentChunkWithScore ::
    "pyval \<Rightarrow> pyval \<Rightarrow> real \<Rightarrow> DocumentChunkMetadata \<Rightarrow> exn + DocumentChunkWithScore"

definition execute :: "backend \<Rightarrow> call \<Rightarrow> world \<Rightarrow> (exn + pyval list) \<times> world" where
  "execute bk c w =
     (respond bk w c, w\<lparr>now := now w + int (latency bk w c), log := log w @ [Call c]\<rparr>)"

definition logger_error :: "exn option \<Rightarrow> world \<Rightarrow> world" where
  "logger_error e w = w\<lparr>log := log w @ [LogError e]\<rparr>"

definition sleep :: "nat \<Rightarrow> world \<Rightarrow> world" where
  "sleep d w = w\<lparr>now := now w + int d, log := log w @ [Slept d]\<rparr>"

text \<open>Sequencing of a computation that may raise.\<close>

fun ebind :: "exn + 'a \<Rightarrow> ('a \<Rightarrow> exn + 'b) \<Rightarrow> exn + 'b" where
  "ebind (Inl e) f = Inl e"
| "ebind (Inr x) f = f x"

definition has_key :: "(string \<times> pyval) list \<Rightarrow> string \<Rightarrow> bool" where
  "has_key kvs k = (map_of kvs k \<noteq> None)"

text \<open>\<open>datetime.fromtimestamp(to_unix_timestamp(d))\<close>\<close>

definition to_datetime :: "pylib \<Rightarrow> string \<Rightarrow> exn + pyval" where
  "to_datetime lib d =
     ebind (to_unix_timestamp lib d) (\<lambda>t.
     ebind (fromtimestamp lib t) (\<lambda>dt. Inr (PDatetime dt)))"

section \<open>SupabaseClient\<close>

text \<open>
  \<open>json["created_at"] = json["created_at"][0].isoformat()\<close>, run when the key is in the
  dict.
\<close>

definition created_at_isoformat ::
  "pylib \<Rightarrow> (string \<times> pyval) list \<Rightarrow> exn + (string \<times> pyval) list" where
  "created_at_isoformat lib json =
     (if has_key json ''created_at''
      then ebind (dict_get json ''created_at'') (\<lambda>v.
           ebind (py_index0 v) (\<lambda>x.
           ebind (py_isoformat (isoformat lib) x) (\<lambda>s.
           Inr (dict_set json ''created_at'' s))))
      else Inr json)"

text \<open>
  \<open>SupabaseClient.upsert\<close>: the conversion and the \<open>created_at\<close> rewrite are outside
  the \<open>try\<close>. The handler of the request's exception calls
  \<open>logger.error("Got exception in supabase_datastore.py: " + str(e), e)\<close>: when formatting
  that message raises, the new exception leaves the method and nothing is logged;
  otherwise the exception is logged and the method returns.
\<close>

definition SupabaseClient_upsert ::
  "backend \<Rightarrow> pylib \<Rightarrow> string \<Rightarrow> (string \<times> pyval) list \<Rightarrow> world \<Rightarrow> (exn + unit) \<times> world" where
  "SupabaseClient_upsert bk lib table json w =
     (case created_at_isoformat lib (convert_items json) of
        Inl e \<Rightarrow> (Inl e, w)
      | Inr json' \<Rightarrow>
          (case execute bk (TableUpsert table (PDict json')) w of
             (Inl e, w') \<Rightarrow>
               (case format_error lib e of
                  Some e' \<Rightarrow> (Inl e', w')
                | None \<Rightarrow> (Inr (), logger_error (Some e) w'))
           | (Inr d, w') \<Rightarrow> (Inr (), w')))"

text \<open>\<open>SupabaseClient.update\<close>: no handler; \<open>json["id"]\<close> is read after the conversion.\<close>

definition SupabaseClient_update ::
  "backend \<Rightarrow> string \<Rightarrow> (string \<times> pyval) list \<Rightarrow> world \<Rightarrow> (exn + unit) \<times> world" where
  "SupabaseClient_update bk table json w =
     (let json' = convert_items json in
      case dict_get json' ''id'' of
        Inl e \<Rightarrow> (Inl e, w)
      | Inr i \<Rightarrow>
          (case execute bk (TableUpdate table (PDict json') i) w of
             (Inl e, w') \<Rightarrow> (Inl e, w')
           | (Inr d, w') \<Rightarrow> (Inr (), w')))"

text \<open>\<open>",".join(columns)\<close>\<close>

fun join_comma :: "string list \<Rightarrow> string" where
  "join_comma [] = []"
| "join_comma [c] = c"
| "join_comma (c # cs) = c @ '','' @ join_comma cs"

definition SupabaseClient_get_by_id ::
  "backend \<Rightarrow> string \<Rightarrow> string \<Rightarrow> string list option \<Rightarrow> world \<Rightarrow> (exn + pyval list) \<times> world" where
  "SupabaseClient_get_by_id bk table i columns w =
     (let columns' = (case columns of None \<Rightarrow> [''*''] | Some cs \<Rightarrow> cs)
      in execute bk (TableSelect table (join_comma columns') i) w)"

text \<open>\<open>params[k] = params[k].isoformat()\<close> when \<open>k\<close> is in \<open>params\<close>.\<close>

definition param_isoformat ::
  "pylib \<Rightarrow> string \<Rightarrow> (string \<times> pyval) list \<Rightarrow> exn + (string \<times> pyval) list" where
  "param_isoformat lib k params =
     (if has_key params k
      then ebind (dict_get params k) (\<lambda>v.
           ebind (py_isoformat (isoformat lib) v) (\<lambda>s.
           Inr (dict_set params k s)))
      else Inr params)"

definition SupabaseClient_rpc ::
  "backend \<Rightarrow> pylib \<Rightarrow> string \<Rightarrow> (string \<times> pyval) list \<Rightarrow> world \<Rightarrow> (exn + pyval list) \<times> world" where
  "SupabaseClient_rpc bk lib function_name params w =
     (case ebind (param_isoformat lib ''in_start_date'' params)
                 (param_isoformat lib ''in_end_date'') of
        Inl e \<Rightarrow> (Inl e, w)
      | Inr params' \<Rightarrow> execute bk (Rpc function_name params') w)"

definition SupabaseClient_delete_like ::
  "backend \<Rightarrow> string \<Rightarrow> string \<Rightarrow> string \<Rightarrow> world \<Rightarrow> (exn + unit) \<times> world" where
  "SupabaseClient_delete_like bk table column pattern w =
     (case execute bk (TableDelete table [Like column pattern]) w of
        (Inl e, w') \<Rightarrow> (Inl e, w')
      | (Inr d, w') \<Rightarrow> (Inr (), w'))"

definition SupabaseClient_delete_in ::
  "backend \<Rightarrow> string \<Rightarrow> string \<Rightarrow> string list \<Rightarrow> world \<Rightarrow> (exn + unit) \<times> world" where
  "SupabaseClient_delete_in bk table column ids w =
     (case execute bk (TableDelete table [In_set column ids]) w of
        (Inl e, w') \<Rightarrow> (Inl e, w')
      | (Inr d, w') \<Rightarrow> (Inr (), w'))"

text \<open>
  \<open>SupabaseClient.delete_by_filters\<close>: the builder collects one predicate for each
  attribute of the filter that is true; the two dates are subscripted with \<open>[0]\<close> and
  sent \<open>.isoformat()\<close> before the request is executed.
\<close>

definition date_predicate :: "pylib \<Rightarrow> string option \<Rightarrow> exn + pyval" where
  "date_predicate lib d =
     ebind (py_index0 (opt_str d)) (py_isoformat (isoformat lib))"

definition filter_predicates :: "pylib \<Rightarrow> DocumentMetadataFilter \<Rightarrow> exn + predicate list" where
  "filter_predicates lib f =
     (let b1 = (if truthy_str (flt_document_id f)
                then [Eq ''document_id'' (opt_str (flt_document_id f))] else []);
          b2 = (if truthy (opt_Source (flt_source f))
                then b1 @ [Eq ''source'' (opt_Source (flt_source f))] else b1);
          b3 = (if truthy_str (flt_source_id f)
                then b2 @ [Eq ''source_id'' (opt_str (flt_source_id f))] else b2);
          b4 = (if truthy_str (flt_author f)
                then b3 @ [Eq ''author'' (opt_str (flt_author f))] else b3)
      in ebind (if truthy_str (flt_start_date f)
                then ebind (date_predicate lib (flt_start_date f))
                       (\<lambda>s. Inr (b4 @ [Gte ''created_at'' s]))
                else Inr b4) (\<lambda>b5.
         if truthy_str (flt_end_date f)
         then ebind (date_predicate lib (flt_end_date f))
                (\<lambda>s. Inr (b5 @ [Lte ''created_at'' s]))
         else Inr b5))"

definition SupabaseClient_delete_by_filters ::
  "backend \<Rightarrow> pylib \<Rightarrow> string \<Rightarrow> DocumentMetadataFilter \<Rightarrow> world \<Rightarrow> (exn + unit) \<times> world" where
  "SupabaseClient_delete_by_filters bk lib table f w =
     (case filter_predicates lib f of
        Inl e \<Rightarrow> (Inl e, w)
      | Inr preds \<Rightarrow>
          (case execute bk (TableDelete table preds) w of
             (Inl e, w') \<Rightarrow> (Inl e, w')
           | (Inr d, w') \<Rightarrow> (Inr (), w')))"

section \<open>PgVectorDataStore\<close>

subsection \<open>Upsert\<close>

fun opt_embedding :: "real list option \<Rightarrow> pyval" where
  "opt_embedding None = PNone"
| "opt_embedding (Some e) = PList (map PFloat e)"

text \<open>
  The row built for one chunk in \<open>_upsert\<close>. With a true \<open>created_at\<close> the date is
  converted, which may raise, and the row gets a one-element tuple holding the datetime
  (the source has a trailing comma there).
\<close>

definition chunk_json ::
  "pylib \<Rightarrow> string \<Rightarrow> DocumentChunk \<Rightarrow> exn + (string \<times> pyval) list" where
  "chunk_json lib document_id chunk =
     (let json =
        [(''id'', opt_str (chunk_id chunk)),
         (''content'', PStr (chunk_text chunk)),
         (''embedding'', opt_embedding (chunk_embedding chunk)),
         (''document_id'', PStr document_id),
         (''source'', opt_Source (md_source (chunk_metadata chunk))),
         (''source_id'', opt_str (md_source_id (chunk_metadata chunk))),
         (''url'', opt_str (md_url (chunk_metadata chunk))),
         (''author'', opt_str (md_author (chunk_metadata chunk)))]
      in case md_created_at (chunk_metadata chunk) of
           None \<Rightarrow> Inr json
         | Some c \<Rightarrow>
             if c \<noteq> []
             then ebind (to_datetime lib c)
                    (\<lambda>dt. Inr (dict_set json ''created_at'' (PTuple [dt])))
             else Inr json)"

fun upsert_document_chunks ::
  "backend \<Rightarrow> pylib \<Rightarrow> string \<Rightarrow> DocumentChunk list \<Rightarrow> world \<Rightarrow> (exn + unit) \<times> world" where
  "upsert_document_chunks bk lib document_id [] w = (Inr (), w)"
| "upsert_document_chunks bk lib document_id (chunk # document_chunks) w =
     (case chunk_json lib document_id chunk of
        Inl e \<Rightarrow> (Inl e, w)
      | Inr json \<Rightarrow>
          (case SupabaseClient_upsert bk lib ''documents'' json w of
             (Inl e, w') \<Rightarrow> (Inl e, w')
           | (Inr u, w') \<Rightarrow> upsert_document_chunks bk lib document_id document_chunks w'))"

fun upsert_items ::
  "backend \<Rightarrow> pylib \<Rightarrow> (string \<times> DocumentChunk list) list \<Rightarrow> world \<Rightarrow> (exn + unit) \<times> world" where
  "upsert_items bk lib [] w = (Inr (), w)"
| "upsert_items bk lib ((document_id, document_chunks) # items) w =
     (case upsert_document_chunks bk lib document_id document_chunks w of
        (Inl e, w') \<Rightarrow> (Inl e, w')
      | (Inr u, w') \<Rightarrow> upsert_items bk lib items w')"

text \<open>\<open>PgVectorDataStore._upsert\<close>; \<open>chunks\<close> is the dict in insertion order.\<close>

definition PgVectorDataStore_upsert ::
  "backend \<Rightarrow> pylib \<Rightarrow> (string \<times> DocumentChunk list) list \<Rightarrow> world \<Rightarrow> (exn + string list) \<times> world" where
  "PgVectorDataStore_upsert bk lib chunks w =
     (case upsert_items bk lib chunks w of
        (Inl e, w') \<Rightarrow> (Inl e, w')
      | (Inr u, w') \<Rightarrow> (Inr (map fst chunks), w'))"

subsection \<open>Query\<close>

text \<open>
  The parameters of one query (the lines of \<open>_query\<close> before the \<open>try\<close>). A pydantic
  model is true whatever its fields, so \<open>if query.filter\<close> tests for \<open>None\<close>. The two dates
  are converted here, outside the \<open>try\<close>: a date that does not convert raises out of
  \<open>_query\<close>.
\<close>

definition filter_params ::
  "pylib \<Rightarrow> DocumentMetadataFilter \<Rightarrow> (string \<times> pyval) list
     \<Rightarrow> exn + (string \<times> pyval) list" where
  "filter_params lib f params =
     (let p1 = (case flt_document_id f of
                  None \<Rightarrow> params
                | Some d \<Rightarrow> if d \<noteq> [] then dict_set params ''in_document_id'' (PStr d) else params);
          p2 = (case flt_source f of
                  None \<Rightarrow> p1
                | Some s \<Rightarrow> if truthy (PEnum (Source_value s))
                           then dict_set p1 ''in_source'' (PStr (Source_value s)) else p1);
          p3 = (case flt_source_id f of
                  None \<Rightarrow> p2
                | Some d \<Rightarrow> if d \<noteq> [] then dict_set p2 ''in_source_id'' (PStr d) else p2);
          p4 = (case flt_author f of
                  None \<Rightarrow> p3
                | Some a \<Rightarrow> if a \<noteq> [] then dict_set p3 ''in_author'' (PStr a) else p3)
      in ebind (case flt_start_date f of
                  None \<Rightarrow> Inr p4
                | Some d \<Rightarrow> if d \<noteq> []
                           then ebind (to_datetime lib d)
                                  (\<lambda>dt. Inr (dict_set p4 ''in_start_date'' dt))
                           else Inr p4) (\<lambda>p5.
         case flt_end_date f of
           None \<Rightarrow> Inr p5
         | Some d \<Rightarrow> if d \<noteq> []
                    then ebind (to_datetime lib d)
                           (\<lambda>dt. Inr (dict_set p5 ''in_end_date'' dt))
                    else Inr p5))"

definition query_params ::
  "pylib \<Rightarrow> QueryWithEmbedding \<Rightarrow> exn + (string \<times> pyval) list" where
  "query_params lib query =
     (let params = [(''in_embedding'', PList (map PFloat (q_embedding query)))];
          params1 = (case q_top_k query of
                       None \<Rightarrow> params
                     | Some k \<Rightarrow> if k \<noteq> 0 then dict_set params ''in_match_count'' (PInt k)
                                else params)
      in case q_filter query of
           None \<Rightarrow> Inr params1
         | Some f \<Rightarrow> filter_params lib f params1)"

text \<open>\<open>row[k]\<close> and \<open>float(x)\<close>.\<close>

fun py_getitem :: "pyval \<Rightarrow> string \<Rightarrow> exn + pyval" where
  "py_getitem (PDict kvs) k = dict_get kvs k"
| "py_getitem v k = Inl TypeError"

fun py_float :: "pylib \<Rightarrow> pyval \<Rightarrow> exn + real" where
  "py_float lib (PFloat r) = Inr r"
| "py_float lib (PInt i) = Inr (float_of_int lib i)"
| "py_float lib (PBool b) = Inr (if b then 1 else 0)"
| "py_float lib (PStr s) = (case float_of_str lib s of None \<Rightarrow> Inl ValueError | Some r \<Rightarrow> Inr r)"
| "py_float lib (PEnum s) = (case float_of_str lib s of None \<Rightarrow> Inl ValueError | Some r \<Rightarrow> Inr r)"
| "py_float lib v = Inl TypeError"

text \<open>One row of the answer becomes a \<open>DocumentChunkWithScore\<close>; arguments left to right.\<close>

definition row_to_chunk :: "pylib \<Rightarrow> pyval \<Rightarrow> exn + DocumentChunkWithScore" where
  "row_to_chunk lib row =
     ebind (py_getitem row ''id'') (\<lambda>i.
     ebind (py_getitem row ''content'') (\<lambda>t.
     ebind (ebind (py_getitem row ''similarity'') (py_float lib)) (\<lambda>sc.
     ebind (py_getitem row ''source'') (\<lambda>src.
     ebind (py_getitem row ''source_id'') (\<lambda>sid.
     ebind (py_getitem row ''document_id'') (\<lambda>did.
     ebind (py_getitem row ''url'') (\<lambda>u.
     ebind (py_getitem row ''created_at'') (\<lambda>c.
     ebind (py_getitem row ''author'') (\<lambda>a.
     ebind (new_DocumentChunkMetadata lib
              [(''source'', src), (''source_id'', sid), (''document_id'', did),
               (''url'', u), (''created_at'', c), (''author'', a)]) (\<lambda>m.
     new_DocumentChunkWithScore lib i t sc m))))))))))"

fun rows_to_chunks :: "pylib \<Rightarrow> pyval list \<Rightarrow> exn + DocumentChunkWithScore list" where
  "rows_to_chunks lib [] = Inr []"
| "rows_to_chunks lib (row # data) =
     ebind (row_to_chunk lib row) (\<lambda>c.
     ebind (rows_to_chunks lib data) (\<lambda>cs. Inr (c # cs)))"

text \<open>The \<open>try\<close> of the loop body and its handler, for the parameters of one query.\<close>

definition query_one ::
  "backend \<Rightarrow> pylib \<Rightarrow> QueryWithEmbedding \<Rightarrow> (string \<times> pyval) list \<Rightarrow> world
     \<Rightarrow> QueryResult \<times> world" where
  "query_one bk lib query params w =
     (case SupabaseClient_rpc bk lib ''match_page_sections'' params w of
        (Inl e, w') \<Rightarrow>
          (\<lparr>qr_query = q_query query, qr_results = []\<rparr>, logger_error (Some e) w')
      | (Inr data, w') \<Rightarrow>
          (case rows_to_chunks lib data of
             Inl e \<Rightarrow> (\<lparr>qr_query = q_query query, qr_results = []\<rparr>, logger_error (Some e) w')
           | Inr results \<Rightarrow> (\<lparr>qr_query = q_query query, qr_results = results\<rparr>, w')))"

text \<open>
  \<open>PgVectorDataStore._query\<close>: an exception of the parameter building ends the loop
  and the results collected so far are lost with it.
\<close>

fun PgVectorDataStore_query ::
  "backend \<Rightarrow> pylib \<Rightarrow> QueryWithEmbedding list \<Rightarrow> world
     \<Rightarrow> (exn + QueryResult list) \<times> world" where
  "PgVectorDataStore_query bk lib [] w = (Inr [], w)"
| "PgVectorDataStore_query bk lib (query # queries) w =
     (case query_params lib query of
        Inl e \<Rightarrow> (Inl e, w)
      | Inr params \<Rightarrow>
          (case query_one bk lib query params w of
             (r, w') \<Rightarrow>
               (case PgVectorDataStore_query bk lib queries w' of
                  (Inl e, w'') \<Rightarrow> (Inl e, w'')
                | (Inr rs, w'') \<Rightarrow> (Inr (r # rs), w''))))"

subsection \<open>Delete\<close>

text \<open>
  \<open>PgVectorDataStore.delete\<close>: \<open>if delete_all\<close> holds for \<open>True\<close> only, \<open>elif ids\<close> for a
  list that is not empty, \<open>elif filter\<close> for any filter object. Each bare \<open>except\<close>
  returns \<open>False\<close>.
\<close>

definition PgVectorDataStore_delete ::
  "backend \<Rightarrow> pylib \<Rightarrow> string list option \<Rightarrow> DocumentMetadataFilter option \<Rightarrow> bool option
     \<Rightarrow> world \<Rightarrow> bool \<times> world" where
  "PgVectorDataStore_delete bk lib ids flt delete_all w =
     (if delete_all = Some True then
        (case SupabaseClient_delete_like bk ''documents'' ''document_id'' ''%'' w of
           (Inl e, w') \<Rightarrow> (False, w')
         | (Inr u, w') \<Rightarrow> (True, w'))
      else if truthy_list ids then
        (case SupabaseClient_delete_in bk ''documents'' ''document_id''
                (case ids of None \<Rightarrow> [] | Some is \<Rightarrow> is) w of
           (Inl e, w') \<Rightarrow> (False, w')
         | (Inr u, w') \<Rightarrow> (True, w'))
      else
        (case flt of
           Some f \<Rightarrow>
             (case SupabaseClient_delete_by_filters bk lib ''documents'' f w of
                (Inl e, w') \<Rightarrow> (False, w')
              | (Inr u, w') \<Rightarrow> (True, w'))
         | None \<Rightarrow> (True, w)))"

section \<open>Commands\<close>

text \<open>\<open>command.dict()\<close> of a \<open>CommandWithContent\<close>: enum members stay enum members.\<close>

definition DocumentMetadata_dict :: "DocumentMetadata \<Rightarrow> (string \<times> pyval) list" where
  "DocumentMetadata_dict m =
     [(''source'', opt_Source (md_source m)),
      (''source_id'', opt_str (md_source_id m)),
      (''url'', opt_str (md_url m)),
      (''created_at'', opt_str (md_created_at m)),
      (''author'', opt_str (md_author m))]"

definition CommandWithContent_dict :: "CommandWithContent \<Rightarrow> (string \<times> pyval) list" where
  "CommandWithContent_dict c =
     [(''id'', opt_str (cmd_id c)),
      (''status'', PEnum (CommandStatus_value (cmd_status c))),
      (''errors'', opt_str (cmd_errors c)),
      (''created_at'', opt_str (cmd_created_at c)),
      (''updated_at'', opt_str (cmd_updated_at c)),
      (''type'', PEnum (CommandType_value (cmd_type c))),
      (''content'', PDict
         [(''text'', PStr (cc_text (cmd_content c))),
          (''metadata'', PDict (DocumentMetadata_dict (cc_metadata (cmd_content c))))])]"

text \<open>
  \<open>PgVectorDataStore.create_command\<close>: sets the id on the command object it was given
  (the caller sees it) and writes the command. \<open>uuid\<close> is the value of \<open>str(uuid4())\<close>.
\<close>

definition PgVectorDataStore_create_command ::
  "backend \<Rightarrow> pylib \<Rightarrow> string \<Rightarrow> CommandWithContent \<Rightarrow> world
     \<Rightarrow> (exn + string) \<times> CommandWithContent \<times> world" where
  "PgVectorDataStore_create_command bk lib uuid command w =
     (let command' = command\<lparr>cmd_id := Some uuid\<rparr> in
      case SupabaseClient_upsert bk lib ''commands'' (CommandWithContent_dict command') w of
        (Inl e, w') \<Rightarrow> (Inl e, command', w')
      | (Inr u, w') \<Rightarrow> (Inr uuid, command', w'))"

text \<open>\<open>list(Command.schema().get('properties').keys())\<close>\<close>

definition Command_fields :: "string list" where
  "Command_fields = [''id'', ''status'', ''errors'', ''created_at'', ''updated_at'']"

text \<open>\<open>Command(**row)\<close>: the row has to be a mapping.\<close>

fun Command_of_row :: "pylib \<Rightarrow> pyval \<Rightarrow> exn + Command" where
  "Command_of_row lib (PDict kvs) = new_Command lib kvs"
| "Command_of_row lib v = Inl TypeError"

definition PgVectorDataStore_get_command ::
  "backend \<Rightarrow> pylib \<Rightarrow> string \<Rightarrow> world \<Rightarrow> (exn + Command option) \<times> world" where
  "PgVectorDataStore_get_command bk lib command_id w =
     (case SupabaseClient_get_by_id bk ''commands'' command_id (Some Command_fields) w of
        (Inl e, w') \<Rightarrow> (Inl e, w')
      | (Inr [], w') \<Rightarrow> (Inr None, w')
      | (Inr (row # rest), w') \<Rightarrow>
          (case Command_of_row lib row of
             Inl e \<Rightarrow> (Inl e, w')
           | Inr c \<Rightarrow> (Inr (Some c), w')))"

definition PgVectorDataStore_update_command ::
  "backend \<Rightarrow> CommandWithContent \<Rightarrow> world \<Rightarrow> (exn + bool) \<times> world" where
  "PgVectorDataStore_update_command bk command w =
     (case SupabaseClient_update bk ''commands'' (CommandWithContent_dict command) w of
        (Inl e, w') \<Rightarrow> (Inl e, w')
      | (Inr u, w') \<Rightarrow> (Inr True, w'))"

text \<open>
  The two requests of the polling loop: the fetch sent by \<open>get_command\<close> and the update
  sent by \<open>update_command\<close> for the command set to \<open>ABANDONED\<close>.
\<close>

definition select_call :: "string \<Rightarrow> call" where
  "select_call i = TableSelect ''commands'' (join_comma Command_fields) i"

definition abandon_call :: "CommandWithContent \<Rightarrow> string \<Rightarrow> call" where
  "abandon_call command i =
     TableUpdate ''commands''
       (PDict (convert_items (CommandWithContent_dict (command\<lparr>cmd_status := ABANDONED\<rparr>))))
       (PStr i)"

subsection \<open>The command endpoint of \<open>local_server/main.py\<close>\<close>

definition timeout_message :: string where
  "timeout_message = ''Command was abandoned due to timeout. Check Obsidian connection''"

text \<open>
  The \<open>while True\<close> loop of \<open>create_command\<close>. \<open>command.status\<close> on \<open>None\<close> raises
  \<open>AttributeError\<close>. The clock is read after the fetch.
\<close>

function poll_loop ::
  "backend \<Rightarrow> pylib \<Rightarrow> string \<Rightarrow> int \<Rightarrow> CommandWithContent \<Rightarrow> world
     \<Rightarrow> (exn + CommandResponse) \<times> world" where
  "poll_loop bk lib i start_time command w =
     (case PgVectorDataStore_get_command bk lib i w of
        (Inl e, w1) \<Rightarrow> (Inl e, w1)
      | (Inr None, w1) \<Rightarrow> (Inl AttributeError, w1)
      | (Inr (Some c), w1) \<Rightarrow>
          if cmd_status c = COMPLETED then
            (Inr \<lparr>resp_id = i, resp_errors = None\<rparr>, w1)
          else if cmd_status c = ERROR then
            (Inr \<lparr>resp_id = i, resp_errors = cmd_errors c\<rparr>, w1)
          else if now w1 - start_time > 20 then
            (case PgVectorDataStore_update_command bk (command\<lparr>cmd_status := ABANDONED\<rparr>) w1 of
               (Inl e, w2) \<Rightarrow> (Inl e, w2)
             | (Inr b, w2) \<Rightarrow> (Inr \<lparr>resp_id = i, resp_errors = Some timeout_message\<rparr>, w2))
          else poll_loop bk lib i start_time command (sleep 5 w1))"
  by pat_completeness auto

termination poll_loop
proof (relation "measure (\<lambda>(bk, lib, i, start_time, command, w). nat (start_time + 21 - now w))")
  show "wf (measure (\<lambda>(bk, lib, i, start_time, command, w). nat (start_time + 21 - now w)))"
    by simp
next
  fix bk lib i start_time and command :: CommandWithContent and w x y x2a x2
  assume fetched: "(x, y) = PgVectorDataStore_get_command bk lib i w"
    and in_time: "\<not> 20 < now y - start_time"
  have "now w \<le> now (snd (PgVectorDataStore_get_command bk lib i w))"
    by (auto simp: PgVectorDataStore_get_command_def SupabaseClient_get_by_id_def execute_def
        split: sum.splits list.splits prod.splits)
  then have "now w \<le> now y"
    using fetched [symmetric] by simp
  with in_time
  show "((bk, lib, i, start_time, command, sleep 5 y), (bk, lib, i, start_time, command, w))
       \<in> measure (\<lambda>(bk, lib, i, start_time, command, w). nat (start_time + 21 - now w))"
    by (simp add: sleep_def)
qed

declare poll_loop.simps [simp del]

text \<open>
  \<open>create_command\<close> of \<open>local_server/main.py\<close>: the datastore creates the command, the
  clock is read, the loop runs; the handler of the \<open>try\<close> logs the exception and its
  cause (none here) and raises the HTTP error.
\<close>

definition create_command ::
  "backend \<Rightarrow> pylib \<Rightarrow> string \<Rightarrow> CommandWithContent \<Rightarrow> world \<Rightarrow> (exn + CommandResponse) \<times> world" where
  "create_command bk lib uuid request_command w =
     (case (case PgVectorDataStore_create_command bk lib uuid request_command w of
              (Inl e, command, w1) \<Rightarrow> (Inl e, w1)
            | (Inr i, command, w1) \<Rightarrow> poll_loop bk lib i (now w1) command w1) of
        (Inl e, w') \<Rightarrow>
          (Inl (HTTPException 500 ''Internal Service Error''),
           logger_error None (logger_error (Some e) w'))
      | (Inr r, w') \<Rightarrow> (Inr r, w'))"

section \<open>Concrete backends and inputs\<close>

text \<open>
  Stand-ins for the library functions, a backend that answers every request with the
  same outcome at once, and small inputs, to run the definitions on.
\<close>

fun status_of_str :: "string \<Rightarrow> CommandStatus option" where
  "status_of_str s =
     (if s = ''NEW'' then Some NEW
      else if s = ''PROCESSING'' then Some PROCESSING
      else if s = ''COMPLETED'' then Some COMPLETED
      else if s = ''ABANDONED'' then Some ABANDONED
      else if s = ''ERROR'' then Some ERROR
      else None)"

fun str_of_pyval :: "pyval \<Rightarrow> string option" where
  "str_of_pyval (PStr s) = Some s"
| "str_of_pyval v = None"

definition demo_new_Command :: "(string \<times> pyval) list \<Rightarrow> exn + Command" where
  "demo_new_Command kvs =
     (case map_of kvs ''status'' of
        Some (PStr s) \<Rightarrow>
          (case status_of_str s of
             None \<Rightarrow> Inl ValidationError
           | Some st \<Rightarrow>
               Inr \<lparr>cmd_id = Option.bind (map_of kvs ''id'') str_of_pyval,
                    cmd_status = st,
                    cmd_errors = Option.bind (map_of kvs ''errors'') str_of_pyval,
                    cmd_created_at = Option.bind (map_of kvs ''created_at'') str_of_pyval,
                    cmd_updated_at = Option.bind (map_of kvs ''updated_at'') str_of_pyval\<rparr>)
      | _ \<Rightarrow> Inl ValidationError)"

definition demo_new_DocumentChunkMetadata ::
  "(string \<times> pyval) list \<Rightarrow> exn + DocumentChunkMetadata" where
  "demo_new_DocumentChunkMetadata kvs =
     Inr \<lparr>md_source = None,
          md_source_id = Option.bind (map_of kvs ''source_id'') str_of_pyval,
          md_url = Option.bind (map_of kvs ''url'') str_of_pyval,
          md_created_at = Option.bind (map_of kvs ''created_at'') str_of_pyval,
          md_author = Option.bind (map_of kvs ''author'') str_of_pyval,
          md_document_id = Option.bind (map_of kvs ''document_id'') str_of_pyval\<rparr>"

definition demo_new_DocumentChunkWithScore ::
  "pyval \<Rightarrow> pyval \<Rightarrow> real \<Rightarrow> DocumentChunkMetadata \<Rightarrow> exn + DocumentChunkWithScore" where
  "demo_new_DocumentChunkWithScore i t sc m =
     (case t of
        PStr s \<Rightarrow>
          Inr \<lparr>chunk_id = str_of_pyval i, chunk_text = s, chunk_metadata = m,
               chunk_embedding = None, chunk_score = sc\<rparr>
      | _ \<Rightarrow> Inl ValidationError)"

text \<open>
  The stand-in for the logger's formatting raises on a backend error whose text holds an
  opening brace; the one for the date parser rejects the thirtieth of February.
\<close>

fun demo_format_error :: "exn \<Rightarrow> exn option" where
  "demo_format_error (BackendError s) = (if CHR ''{'' \<in> set s then Some (KeyError s) else None)"
| "demo_format_error e = None"

definition demo_lib :: pylib where
  "demo_lib =
     \<lparr>to_unix_timestamp =
        (\<lambda>s. if s = ''2023-02-30'' then Inl ValueError else Inr (int (length s))),
      fromtimestamp = (\<lambda>t. Inr t),
      isoformat = (\<lambda>t. ''T''),
      format_error = demo_format_error,
      float_of_str = (\<lambda>s. None),
      float_of_int = (\<lambda>i. of_int i),
      new_Command = demo_new_Command,
      new_DocumentChunkMetadata = demo_new_DocumentChunkMetadata,
      new_DocumentChunkWithScore = demo_new_DocumentChunkWithScore\<rparr>"

definition const_backend :: "(exn + pyval list) \<Rightarrow> backend" where
  "const_backend r = \<lparr>respond = (\<lambda>w c. r), latency = (\<lambda>w c. 0)\<rparr>"

definition world0 :: world where
  "world0 = \<lparr>now = 0, log = []\<rparr>"

definition no_filter :: DocumentMetadataFilter where
  "no_filter =
     \<lparr>flt_document_id = None, flt_source = None, flt_source_id = None,
      flt_author = None, flt_start_date = None, flt_end_date = None\<rparr>"

definition demo_command :: CommandWithContent where
  "demo_command =
     \<lparr>cmd_id = None, cmd_status = NEW, cmd_errors = None, cmd_created_at = None,
      cmd_updated_at = None, cmd_type = CREATE_NOTE,
      cmd_content = \<lparr>cc_text = ''note'',
        cc_metadata = \<lparr>md_source = Some FILE, md_source_id = None, md_url = None,
          md_created_at = None, md_author = None\<rparr>\<rparr>\<rparr>"

definition status_row :: "string \<Rightarrow> pyval" where
  "status_row s = PDict [(''status'', PStr s), (''errors'', PStr ''failed in Obsidian'')]"

text \<open>
  A backend whose \<open>commands\<close> table shows status \<open>NEW\<close> before time \<open>t\<close> and status
  \<open>s\<close> from then on, and that accepts every write.
\<close>

definition scripted_backend :: "int \<Rightarrow> string \<Rightarrow> backend" where
  "scripted_backend t s =
     \<lparr>respond = (\<lambda>w c. case c of
          TableSelect table columns i \<Rightarrow> Inr [status_row (if now w < t then ''NEW'' else s)]
        | _ \<Rightarrow> Inr []),
      latency = (\<lambda>w c. 0)\<rparr>"


definition demo_row :: pyval where
  "demo_row =
     PDict [(''id'', PStr ''A''), (''content'', PStr ''hello''), (''similarity'', PInt 1),
            (''source'', PNone), (''source_id'', PNone), (''document_id'', PStr ''d1''),
            (''url'', PNone), (''created_at'', PNone), (''author'', PStr ''me'')]"

text \<open>
  A backend whose similarity procedure rejects the document id \<open>bad\<close> and returns one
  row for any other query.
\<close>

definition picky_backend :: backend where
  "picky_backend =
     \<lparr>respond = (\<lambda>w c. case c of
          Rpc f params \<Rightarrow>
            if map_of params ''in_document_id'' = Some (PStr ''bad'')
            then Inl (BackendError ''malformed filter'') else Inr [demo_row]
        | _ \<Rightarrow> Inr []),
      latency = (\<lambda>w c. 0)\<rparr>"

definition demo_query :: "string \<Rightarrow> string \<Rightarrow> QueryWithEmbedding" where
  "demo_query s d =
     \<lparr>q_query = s, q_filter = Some (no_filter\<lparr>flt_document_id := Some d\<rparr>),
      q_top_k = Some 3, q_embedding = []\<rparr>"

definition demo_filter :: DocumentMetadataFilter where
  "demo_filter =
     \<lparr>flt_document_id = Some ''d1'', flt_source = Some CHAT, flt_source_id = Some [],
      flt_author = Some ''me'', flt_start_date = Some ''2023-01-01'', flt_end_date = None\<rparr>"

definition demo_chunk :: "string \<Rightarrow> DocumentChunk" where
  "demo_chunk i =
     \<lparr>chunk_id = Some i, chunk_text = ''hello'',
      chunk_metadata = \<lparr>md_source = Some FILE, md_source_id = None, md_url = None,
        md_created_at = Some ''2023-05-01'', md_author = None, md_document_id = None\<rparr>,
      chunk_embedding = None\<rparr>"

section \<open>Properties read off a value or a trace\<close>

text \<open>
  Where the adapter looks, that is through the values of dicts and the elements of lists:
  is there no enum member, is there no dict item whose value is \<open>None\<close>.
\<close>

fun enum_free :: "pyval \<Rightarrow> bool"
  and enum_free_items :: "(string \<times> pyval) list \<Rightarrow> bool"
  and enum_free_elems :: "pyval list \<Rightarrow> bool" where
  "enum_free (PDict kvs) = enum_free_items kvs"
| "enum_free (PList xs) = enum_free_elems xs"
| "enum_free (PEnum s) = False"
| "enum_free PNone = True"
| "enum_free (PBool b) = True"
| "enum_free (PInt i) = True"
| "enum_free (PFloat r) = True"
| "enum_free (PStr s) = True"
| "enum_free (PDatetime t) = True"
| "enum_free (PTuple xs) = True"
| "enum_free_items [] = True"
| "enum_free_items ((k, v) # kvs) = (enum_free v \<and> enum_free_items kvs)"
| "enum_free_elems [] = True"
| "enum_free_elems (x # xs) = (enum_free x \<and> enum_free_elems xs)"

fun null_field_free :: "pyval \<Rightarrow> bool"
  and null_field_free_items :: "(string \<times> pyval) list \<Rightarrow> bool"
  and null_field_free_elems :: "pyval list \<Rightarrow> bool" where
  "null_field_free (PDict kvs) = null_field_free_items kvs"
| "null_field_free (PList xs) = null_field_free_elems xs"
| "null_field_free (PEnum s) = True"
| "null_field_free PNone = True"
| "null_field_free (PBool b) = True"
| "null_field_free (PInt i) = True"
| "null_field_free (PFloat r) = True"
| "null_field_free (PStr s) = True"
| "null_field_free (PDatetime t) = True"
| "null_field_free (PTuple xs) = True"
| "null_field_free_items [] = True"
| "null_field_free_items ((k, v) # kvs) =
     (v \<noteq> PNone \<and> null_field_free v \<and> null_field_free_items kvs)"
| "null_field_free_elems [] = True"
| "null_field_free_elems (x # xs) = (null_field_free x \<and> null_field_free_elems xs)"

text \<open>The requests of a trace, in order.\<close>

fun calls_of :: "event list \<Rightarrow> call list" where
  "calls_of [] = []"
| "calls_of (Call c # evs) = c # calls_of evs"
| "calls_of (ev # evs) = calls_of evs"

text \<open>
  The row that reaches the backend for one chunk: built by \<open>_upsert\<close>, then converted and
  given its \<open>created_at\<close> string by the client's \<open>upsert\<close>.
\<close>

definition chunk_row ::
  "pylib \<Rightarrow> string \<Rightarrow> DocumentChunk \<Rightarrow> exn + (string \<times> pyval) list" where
  "chunk_row lib document_id chunk =
     ebind (chunk_json lib document_id chunk)
       (\<lambda>json. created_at_isoformat lib (convert_items json))"

text \<open>The datetime of a date attribute that passes \<open>if x:\<close>; the conversion may raise.\<close>

fun date_param :: "pylib \<Rightarrow> string option \<Rightarrow> exn + pyval option" where
  "date_param lib None = Inr None"
| "date_param lib (Some d) =
     (if d = [] then Inr None else ebind (to_datetime lib d) (\<lambda>dt. Inr (Some dt)))"

text \<open>The value of an \<open>Optional[str]\<close> attribute that passes \<open>if x:\<close>.\<close>

fun nonempty :: "string option \<Rightarrow> string option" where
  "nonempty None = None"
| "nonempty (Some s) = (if s = [] then None else Some s)"

section \<open>What a client call leaves in the trace\<close>

lemma execute_log: "log (snd (execute bk c w)) = log w @ [Call c]"
  by (simp add: execute_def)

lemma execute_fst: "fst (execute bk c w) = respond bk w c"
  by (simp add: execute_def)

lemma delete_like_raises:
  "isl (fst (SupabaseClient_delete_like bk table column pattern w)) =
     isl (respond bk w (TableDelete table [Like column pattern]))"
  by (simp add: SupabaseClient_delete_like_def execute_def split: sum.splits)

lemma delete_in_raises:
  "isl (fst (SupabaseClient_delete_in bk table column ids w)) =
     isl (respond bk w (TableDelete table [In_set column ids]))"
  by (simp add: SupabaseClient_delete_in_def execute_def split: sum.splits)

lemma delete_by_filters_raises:
  "isl (fst (SupabaseClient_delete_by_filters bk lib table f w)) =
     (case filter_predicates lib f of
        Inl e \<Rightarrow> True
      | Inr preds \<Rightarrow> isl (respond bk w (TableDelete table preds)))"
  by (simp add: SupabaseClient_delete_by_filters_def execute_def split: sum.splits)

lemma delete_like_log:
  "log (snd (SupabaseClient_delete_like bk table column pattern w)) =
     log w @ [Call (TableDelete table [Like column pattern])]"
  by (simp add: SupabaseClient_delete_like_def execute_def split: sum.splits)

lemma delete_in_log:
  "log (snd (SupabaseClient_delete_in bk table column ids w)) =
     log w @ [Call (TableDelete table [In_set column ids])]"
  by (simp add: SupabaseClient_delete_in_def execute_def split: sum.splits)

section \<open>Delete\<close>

text \<open>
  C5, as the code has it. Whenever \<open>delete_all\<close> is true, \<open>ids\<close> is a list that is not
  empty or a filter is given, the whole effect of \<open>delete\<close> is the effect of exactly one
  client call, chosen in the order \<open>delete_all\<close>, \<open>ids\<close>, \<open>filter\<close>: the wildcard delete
  whatever \<open>ids\<close> and \<open>filter\<close> are, else the delete by ids whatever \<open>filter\<close> is, else
  the delete by filter.
\<close>

theorem delete_mode_precedence:
  assumes "delete_all = Some True \<or> truthy_list ids \<or> flt \<noteq> None"
  shows "snd (PgVectorDataStore_delete bk lib ids flt delete_all w) =
     (if delete_all = Some True then
        snd (SupabaseClient_delete_like bk ''documents'' ''document_id'' ''%'' w)
      else if truthy_list ids then
        snd (SupabaseClient_delete_in bk ''documents'' ''document_id'' (the ids) w)
      else snd (SupabaseClient_delete_by_filters bk lib ''documents'' (the flt) w))"
  using assms
  by (auto simp: PgVectorDataStore_delete_def split: prod.splits sum.splits option.splits)

text \<open>
  The three modes on one backend: with all three arguments given the trace holds the
  wildcard delete alone; without \<open>delete_all\<close> the delete by ids alone; with an empty
  list of ids the delete by filter alone.
\<close>

theorem delete_mode_precedence_witness:
  "log (snd (PgVectorDataStore_delete (const_backend (Inr [])) demo_lib
        (Some [''a'']) (Some (no_filter\<lparr>flt_author := Some ''me''\<rparr>)) (Some True) world0)) =
     [Call (TableDelete ''documents'' [Like ''document_id'' ''%''])]
   \<and> log (snd (PgVectorDataStore_delete (const_backend (Inr [])) demo_lib
        (Some [''a'']) (Some (no_filter\<lparr>flt_author := Some ''me''\<rparr>)) (Some False) world0)) =
     [Call (TableDelete ''documents'' [In_set ''document_id'' [''a'']])]
   \<and> log (snd (PgVectorDataStore_delete (const_backend (Inr [])) demo_lib
        (Some []) (Some (no_filter\<lparr>flt_author := Some ''me''\<rparr>)) None world0)) =
     [Call (TableDelete ''documents'' [Eq ''author'' (PStr ''me'')])]"
  using
    delete_mode_precedence [of "Some True" "Some [''a'']"
      "Some (no_filter\<lparr>flt_author := Some ''me''\<rparr>)" "const_backend (Inr [])" demo_lib world0]
    delete_mode_precedence [of "Some False" "Some [''a'']"
      "Some (no_filter\<lparr>flt_author := Some ''me''\<rparr>)" "const_backend (Inr [])" demo_lib world0]
    delete_mode_precedence [of None "Some []"
      "Some (no_filter\<lparr>flt_author := Some ''me''\<rparr>)" "const_backend (Inr [])" demo_lib world0]
  by (simp add: delete_like_log delete_in_log SupabaseClient_delete_by_filters_def
      filter_predicates_def date_predicate_def execute_def const_backend_def world0_def
      no_filter_def)

text \<open>
  C5 as stated fails for the call without arguments: no mode runs, the trace stays empty.
\<close>

theorem delete_no_mode_counterexample:
  "PgVectorDataStore_delete (const_backend (Inr [])) demo_lib None None None world0 =
     (True, \<lparr>now = 0, log = []\<rparr>)"
  by (simp add: PgVectorDataStore_delete_def world0_def)

text \<open>
  C6. \<open>delete\<close> returns a flag and never raises: the flag is false exactly when the call
  of the selected mode raises, that is when the backend answers the delete request with
  an exception, or, for a filter, when building the predicates raises.
\<close>

theorem delete_returns_success_flag:
  "fst (PgVectorDataStore_delete bk lib ids flt delete_all w) =
     (if delete_all = Some True then
        \<not> isl (respond bk w (TableDelete ''documents'' [Like ''document_id'' ''%'']))
      else if truthy_list ids then
        \<not> isl (respond bk w (TableDelete ''documents'' [In_set ''document_id'' (the ids)]))
      else (case flt of
              None \<Rightarrow> True
            | Some f \<Rightarrow>
                (case filter_predicates lib f of
                   Inl e \<Rightarrow> False
                 | Inr preds \<Rightarrow> \<not> isl (respond bk w (TableDelete ''documents'' preds)))))"
proof -
  have like: "fst (PgVectorDataStore_delete bk lib ids flt (Some True) w) =
      (\<not> isl (respond bk w (TableDelete ''documents'' [Like ''document_id'' ''%''])))"
    using delete_like_raises [of bk "''documents''" "''document_id''" "''%''" w]
    by (auto simp: PgVectorDataStore_delete_def split: prod.splits sum.splits)
  have by_ids: "fst (PgVectorDataStore_delete bk lib ids flt delete_all w) =
      (\<not> isl (respond bk w (TableDelete ''documents'' [In_set ''document_id'' (the ids)])))"
    if "delete_all \<noteq> Some True" "truthy_list ids"
    using that delete_in_raises [of bk "''documents''" "''document_id''" "the ids" w]
    by (cases ids) (auto simp: PgVectorDataStore_delete_def split: prod.splits sum.splits)
  have by_filter: "fst (PgVectorDataStore_delete bk lib ids (Some f) delete_all w) =
      (case filter_predicates lib f of
         Inl e \<Rightarrow> False
       | Inr preds \<Rightarrow> \<not> isl (respond bk w (TableDelete ''documents'' preds)))"
    if "delete_all \<noteq> Some True" "\<not> truthy_list ids" for f
    using that delete_by_filters_raises [of bk lib "''documents''" f w]
    by (auto simp: PgVectorDataStore_delete_def split: prod.splits sum.splits)
  have untouched: "fst (PgVectorDataStore_delete bk lib ids None delete_all w)"
    if "delete_all \<noteq> Some True" "\<not> truthy_list ids"
    using that by (simp add: PgVectorDataStore_delete_def)
  show ?thesis
  proof (cases "delete_all = Some True")
    case True
    with like show ?thesis by simp
  next
    case no_all: False
    show ?thesis
    proof (cases "truthy_list ids")
      case True
      with no_all by_ids [OF no_all True] show ?thesis by simp
    next
      case no_ids: False
      show ?thesis
      proof (cases flt)
        case None
        with no_all no_ids untouched [OF no_all no_ids] show ?thesis by simp
      next
        case (Some f)
        with no_all no_ids by_filter [OF no_all no_ids, of f] show ?thesis by simp
      qed
    qed
  qed
qed

text \<open>
  C9. With \<open>delete_all\<close> absent or false, \<open>ids\<close> absent or empty and no filter, \<open>delete\<close>
  returns \<open>True\<close> and leaves the world as it was: no request reaches the backend.
\<close>

theorem delete_without_arguments:
  assumes "delete_all = None \<or> delete_all = Some False"
      and "ids = None \<or> ids = Some []"
  shows "PgVectorDataStore_delete bk lib ids None delete_all w = (True, w)"
  using assms by (auto simp: PgVectorDataStore_delete_def)

theorem delete_without_arguments_witness:
  "PgVectorDataStore_delete (const_backend (Inl (BackendError ''down''))) demo_lib
     (Some []) None (Some False) world0 = (True, world0)"
  using delete_without_arguments [of "Some False" "Some []"
      "const_backend (Inl (BackendError ''down''))" demo_lib world0]
  by simp

section \<open>The command endpoint\<close>

lemma join_Command_fields:
  "join_comma Command_fields = ''id,status,errors,created_at,updated_at''"
  by (simp add: Command_fields_def)

lemma select_call_eq:
  "select_call i = TableSelect ''commands'' ''id,status,errors,created_at,updated_at'' i"
  by (simp add: select_call_def Command_fields_def)

lemma get_command_result:
  "PgVectorDataStore_get_command bk lib i w =
     ((case respond bk w (TableSelect ''commands'' ''id,status,errors,created_at,updated_at'' i) of
         Inl e \<Rightarrow> Inl e
       | Inr [] \<Rightarrow> Inr None
       | Inr (row # rest) \<Rightarrow>
           (case Command_of_row lib row of Inl e \<Rightarrow> Inl e | Inr c \<Rightarrow> Inr (Some c))),
      snd (execute bk (TableSelect ''commands'' ''id,status,errors,created_at,updated_at'' i) w))"
  by (simp add: PgVectorDataStore_get_command_def SupabaseClient_get_by_id_def
      join_Command_fields execute_def split: sum.splits list.splits)








text \<open>
  On a backend that answers at once the loop polls at 0, 5, 10, 15 and 20 time units, and
  abandons the command at 25.
\<close>

lemma create_command_timeout_trace:
  "create_command (const_backend (Inr [status_row ''PROCESSING''])) demo_lib ''u1''
          demo_command world0 =
     (Inr \<lparr>resp_id = ''u1'', resp_errors = Some timeout_message\<rparr>,
      \<lparr>now = 25,
       log = Call (TableUpsert ''commands''
           (PDict
             [(''id'', PStr ''u1''), (''status'', PStr ''NEW''),
              (''type'', PStr ''CREATE_NOTE''),
              (''content'',
               PDict
                [(''text'', PStr ''note''),
                 (''metadata'', PDict [(''source'', PStr ''FILE'')])])]))
         # concat (replicate 5 [Call (select_call ''u1''), Slept 5])
         @ [Call (select_call ''u1''), Call (abandon_call (demo_command\<lparr>cmd_id := Some ''u1''\<rparr>) ''u1'')]\<rparr>)"
  by code_simp



text \<open>
  C4. In an iteration whose fetch shows status \<open>COMPLETED\<close> the loop returns the
  response without an error message; when the fetch shows \<open>ERROR\<close> it returns the
  response carrying the errors recorded on the fetched command. In both cases the world
  returned is the world right after that fetch, whose only new event is the fetch: no
  write, no sleep and no further poll.
\<close>

theorem poll_loop_terminal_status:
  assumes "PgVectorDataStore_get_command bk lib i w = (Inr (Some c), w1)"
  shows "(cmd_status c = COMPLETED \<longrightarrow>
            poll_loop bk lib i start_time command w =
              (Inr \<lparr>resp_id = i, resp_errors = None\<rparr>, w1))
       \<and> (cmd_status c = ERROR \<longrightarrow>
            poll_loop bk lib i start_time command w =
              (Inr \<lparr>resp_id = i, resp_errors = cmd_errors c\<rparr>, w1))
       \<and> log w1 = log w @ [Call (select_call i)]"
proof -
  have "w1 = snd (execute bk (select_call i) w)"
    using assms by (simp add: get_command_result select_call_eq)
  then have "log w1 = log w @ [Call (select_call i)]"
    by (simp add: execute_log)
  then show ?thesis
    using assms by (simp add: poll_loop.simps)
qed

theorem poll_loop_terminal_status_witness:
  "poll_loop (const_backend (Inr [status_row ''COMPLETED''])) demo_lib ''u1'' 0 demo_command
       world0 =
     (Inr \<lparr>resp_id = ''u1'', resp_errors = None\<rparr>,
      \<lparr>now = 0, log = [Call (select_call ''u1'')]\<rparr>)
   \<and> poll_loop (const_backend (Inr [status_row ''ERROR''])) demo_lib ''u1'' 0 demo_command
       world0 =
     (Inr \<lparr>resp_id = ''u1'', resp_errors = Some ''failed in Obsidian''\<rparr>,
      \<lparr>now = 0, log = [Call (select_call ''u1'')]\<rparr>)"
proof -
  have completed:
    "PgVectorDataStore_get_command (const_backend (Inr [status_row ''COMPLETED''])) demo_lib
       ''u1'' world0 =
     (Inr (Some \<lparr>cmd_id = None, cmd_status = COMPLETED,
                   cmd_errors = Some ''failed in Obsidian'', cmd_created_at = None,
                   cmd_updated_at = None\<rparr>),
      \<lparr>now = 0, log = [Call (select_call ''u1'')]\<rparr>)"
    by (simp add: get_command_result select_call_eq execute_def const_backend_def
        status_row_def demo_lib_def demo_new_Command_def world0_def)
  have error:
    "PgVectorDataStore_get_command (const_backend (Inr [status_row ''ERROR''])) demo_lib
       ''u1'' world0 =
     (Inr (Some \<lparr>cmd_id = None, cmd_status = ERROR,
                   cmd_errors = Some ''failed in Obsidian'', cmd_created_at = None,
                   cmd_updated_at = None\<rparr>),
      \<lparr>now = 0, log = [Call (select_call ''u1'')]\<rparr>)"
    by (simp add: get_command_result select_call_eq execute_def const_backend_def
        status_row_def demo_lib_def demo_new_Command_def world0_def)
  show ?thesis
    using poll_loop_terminal_status [OF completed, of 0 demo_command]
      poll_loop_terminal_status [OF error, of 0 demo_command]
    by simp
qed

text \<open>
  Over a whole run: whenever the loop returns a response other than the timeout one, the
  trace it leaves holds fetches and sleeps only.
\<close>

lemma poll_loop_only_polls:
  assumes "poll_loop bk lib i start_time command w = (Inr r, w')"
    and "resp_errors r \<noteq> Some timeout_message"
  shows "\<exists>n. log w' = log w @ concat (replicate n [Call (select_call i), Slept 5])
                 @ [Call (select_call i)]"
  using assms
proof (induction bk lib i start_time command w rule: poll_loop.induct)
  case (1 bk lib i start_time command w)
  define w1 where "w1 = snd (execute bk (select_call i) w)"
  have w1: "log w1 = log w @ [Call (select_call i)]"
    by (simp add: w1_def execute_log)
  have snd_fetch: "snd (PgVectorDataStore_get_command bk lib i w) = w1"
    by (simp add: get_command_result select_call_eq w1_def)
  obtain c where fetch: "PgVectorDataStore_get_command bk lib i w = (Inr (Some c), w1)"
    using "1.prems"(1) snd_fetch
    by (cases "PgVectorDataStore_get_command bk lib i w")
       (auto simp: poll_loop.simps split: sum.splits option.splits)
  consider (terminal) "cmd_status c = COMPLETED \<or> cmd_status c = ERROR"
    | (late) "cmd_status c \<noteq> COMPLETED" "cmd_status c \<noteq> ERROR" "20 < now w1 - start_time"
    | (wait) "cmd_status c \<noteq> COMPLETED" "cmd_status c \<noteq> ERROR" "\<not> 20 < now w1 - start_time"
    by blast
  then show ?case
  proof cases
    case terminal
    then have "w' = w1"
      using "1.prems"(1) fetch by (auto simp: poll_loop.simps)
    with w1 show ?thesis
      by (intro exI [of _ 0]) simp
  next
    case late
    then have False
      using "1.prems" fetch by (auto simp: poll_loop.simps split: prod.splits sum.splits)
    then show ?thesis ..
  next
    case wait
    then have "poll_loop bk lib i start_time command (sleep 5 w1) = (Inr r, w')"
      using "1.prems"(1) fetch by (simp add: poll_loop.simps)
    from "1.IH" [OF fetch [symmetric] refl refl wait this "1.prems"(2)]
    obtain n where "log w' = log (sleep 5 w1)
        @ concat (replicate n [Call (select_call i), Slept 5]) @ [Call (select_call i)]"
      by blast
    with w1 show ?thesis
      by (intro exI [of _ "Suc n"]) (simp add: sleep_def)
  qed
qed

text \<open>
  A command that first shows \<open>NEW\<close> and, from time 7 on, \<open>COMPLETED\<close>: the creation is
  the only write.
\<close>

lemma create_command_completed_trace:
  "create_command (scripted_backend 7 ''COMPLETED'') demo_lib ''u1'' demo_command world0 =
     (Inr \<lparr>resp_id = ''u1'', resp_errors = None\<rparr>,
      \<lparr>now = 10,
       log = [Call (TableUpsert ''commands''
           (PDict
             [(''id'', PStr ''u1''), (''status'', PStr ''NEW''),
              (''type'', PStr ''CREATE_NOTE''),
              (''content'',
               PDict
                [(''text'', PStr ''note''),
                 (''metadata'', PDict [(''source'', PStr ''FILE'')])])])),
          Call (select_call ''u1''), Slept 5, Call (select_call ''u1''), Slept 5,
          Call (select_call ''u1'')]\<rparr>)"
  by code_simp

section \<open>Reading a command\<close>

text \<open>
  C10. When the request of \<open>get_by_id\<close> returns rows, \<open>get_command\<close> returns \<open>None\<close>
  exactly when there is no row, without raising; otherwise it returns what the \<open>Command\<close>
  constructor makes of the first row (the command, or the constructor's exception).
\<close>

theorem get_command_none_iff_no_rows:
  assumes "SupabaseClient_get_by_id bk ''commands'' command_id (Some Command_fields) w =
             (Inr data, w')"
  shows "(PgVectorDataStore_get_command bk lib command_id w = (Inr None, w') \<longleftrightarrow> data = [])
       \<and> (data = row # rest \<longrightarrow>
            PgVectorDataStore_get_command bk lib command_id w =
              (case Command_of_row lib row of
                 Inl e \<Rightarrow> (Inl e, w')
               | Inr c \<Rightarrow> (Inr (Some c), w')))"
  using assms
  by (auto simp: PgVectorDataStore_get_command_def split: list.splits sum.splits)


theorem get_command_none_iff_no_rows_witness:
  "PgVectorDataStore_get_command (const_backend (Inr [])) demo_lib ''u1'' world0 =
     (Inr None, \<lparr>now = 0, log = [Call (select_call ''u1'')]\<rparr>)
   \<and> PgVectorDataStore_get_command
       (const_backend (Inr [status_row ''PROCESSING'', status_row ''ERROR''])) demo_lib ''u1''
       world0 =
     (Inr (Some \<lparr>cmd_id = None, cmd_status = PROCESSING,
                   cmd_errors = Some ''failed in Obsidian'', cmd_created_at = None,
                   cmd_updated_at = None\<rparr>),
      \<lparr>now = 0, log = [Call (select_call ''u1'')]\<rparr>)"
proof -
  have no_rows:
    "SupabaseClient_get_by_id (const_backend (Inr [])) ''commands'' ''u1'' (Some Command_fields)
       world0 =
     (Inr [], \<lparr>now = 0, log = [Call (select_call ''u1'')]\<rparr>)"
    by (simp add: SupabaseClient_get_by_id_def execute_def const_backend_def world0_def
        select_call_def)
  have two_rows:
    "SupabaseClient_get_by_id
       (const_backend (Inr [status_row ''PROCESSING'', status_row ''ERROR''])) ''commands''
       ''u1'' (Some Command_fields) world0 =
     (Inr [status_row ''PROCESSING'', status_row ''ERROR''],
      \<lparr>now = 0, log = [Call (select_call ''u1'')]\<rparr>)"
    by (simp add: SupabaseClient_get_by_id_def execute_def const_backend_def world0_def
        select_call_def)
  show ?thesis
    using get_command_none_iff_no_rows [OF no_rows, where lib = demo_lib]
      get_command_none_iff_no_rows [OF two_rows, where lib = demo_lib
        and row = "status_row ''PROCESSING''" and rest = "[status_row ''ERROR'']"]
    by (simp add: status_row_def demo_lib_def demo_new_Command_def)
qed

text \<open>
  What the polling loop makes of a missing command: reading \<open>status\<close> of \<open>None\<close> raises,
  and the endpoint answers with the HTTP error.
\<close>

lemma poll_loop_missing_command:
  assumes "PgVectorDataStore_get_command bk lib i w = (Inr None, w1)"
  shows "poll_loop bk lib i start_time command w = (Inl AttributeError, w1)"
  using assms by (simp add: poll_loop.simps)

lemma create_command_missing_command:
  "fst (create_command (const_backend (Inr [])) demo_lib ''u1'' demo_command world0) =
     Inl (HTTPException 500 ''Internal Service Error'')"
  by code_simp

section \<open>Query\<close>

lemma query_one_log:
  "\<exists>l. log (snd (query_one bk lib q params w)) = log w @ l"
  by (auto simp: query_one_def SupabaseClient_rpc_def execute_def logger_error_def
      split: prod.splits sum.splits)

text \<open>A batch whose parameters can all be built returns, whatever the backend does.\<close>

lemma query_returns:
  assumes "\<And>q. q \<in> set qs \<Longrightarrow> \<not> isl (query_params lib q)"
  shows "\<exists>rs w'. PgVectorDataStore_query bk lib qs w = (Inr rs, w')
           \<and> length rs = length qs \<and> (\<exists>l. log w' = log w @ l)"
  using assms
proof (induction qs arbitrary: w)
  case Nil
  then show ?case by simp
next
  case (Cons q qs)
  obtain params where params: "query_params lib q = Inr params"
    using Cons.prems [of q] by (cases "query_params lib q") simp_all
  obtain r w1 where one: "query_one bk lib q params w = (r, w1)"
    by (cases "query_one bk lib q params w")
  obtain l1 where l1: "log w1 = log w @ l1"
    using query_one_log [of bk lib q params w] one by auto
  obtain rs w2 l2 where rest: "PgVectorDataStore_query bk lib qs w1 = (Inr rs, w2)"
      "length rs = length qs" "log w2 = log w1 @ l2"
    using Cons.IH [of w1] Cons.prems by auto
  show ?case
    using params one l1 rest by simp
qed

lemma query_append:
  assumes "PgVectorDataStore_query bk lib qs1 w = (Inr rs1, w1)"
  shows "PgVectorDataStore_query bk lib (qs1 @ qs2) w =
     (case PgVectorDataStore_query bk lib qs2 w1 of
        (Inl e, w2) \<Rightarrow> (Inl e, w2)
      | (Inr rs2, w2) \<Rightarrow> (Inr (rs1 @ rs2), w2))"
  using assms
proof (induction qs1 arbitrary: w rs1)
  case Nil
  then show ?case by (auto split: prod.splits sum.splits)
next
  case (Cons q qs1)
  obtain params where params: "query_params lib q = Inr params"
    using Cons.prems by (cases "query_params lib q") simp_all
  obtain r w0 where one: "query_one bk lib q params w = (r, w0)"
    by (cases "query_one bk lib q params w")
  obtain rs0 where rest: "PgVectorDataStore_query bk lib qs1 w0 = (Inr rs0, w1)"
      "rs1 = r # rs0"
    using Cons.prems params one by (auto split: prod.splits sum.splits)
  from Cons.IH [OF rest(1)] params one rest show ?case
    by (auto split: prod.splits sum.splits)
qed

text \<open>
  C2, as the code has it. In a batch whose parameters can all be built (every filter
  date converts), when the similarity call of one query raises: the batch returns, with
  one entry per query in the order of the queries. The entry of the failing query has
  the query string and no results, the exception is in the error log, and the entries of
  the queries before and after it are the ones \<open>_query\<close> computes for them.
\<close>

theorem query_isolates_failing_query:
  assumes builds: "\<And>q'. q' \<in> set (qs1 @ q # qs2) \<Longrightarrow> \<not> isl (query_params lib q')"
    and params: "query_params lib q = Inr params"
    and failing: "SupabaseClient_rpc bk lib ''match_page_sections'' params
                    (snd (PgVectorDataStore_query bk lib qs1 w)) = (Inl e, w2)"
  shows "\<exists>rs1 rs2 w3.
           fst (PgVectorDataStore_query bk lib qs1 w) = Inr rs1
         \<and> PgVectorDataStore_query bk lib qs2 (logger_error (Some e) w2) = (Inr rs2, w3)
         \<and> PgVectorDataStore_query bk lib (qs1 @ q # qs2) w =
             (Inr (rs1 @ \<lparr>qr_query = q_query q, qr_results = []\<rparr> # rs2), w3)
         \<and> LogError (Some e) \<in> set (log w3)
         \<and> length rs1 = length qs1 \<and> length rs2 = length qs2"
proof -
  obtain rs1 w1 where before: "PgVectorDataStore_query bk lib qs1 w = (Inr rs1, w1)"
      "length rs1 = length qs1"
    using query_returns [of qs1 lib bk w] builds by auto
  obtain rs2 w3 l where after:
      "PgVectorDataStore_query bk lib qs2 (logger_error (Some e) w2) = (Inr rs2, w3)"
      "length rs2 = length qs2" "log w3 = log (logger_error (Some e) w2) @ l"
    using query_returns [of qs2 lib bk "logger_error (Some e) w2"] builds by auto
  have one: "query_one bk lib q params w1 =
      (\<lparr>qr_query = q_query q, qr_results = []\<rparr>, logger_error (Some e) w2)"
    using failing before(1) by (simp add: query_one_def)
  have "PgVectorDataStore_query bk lib (q # qs2) w1 =
      (Inr (\<lparr>qr_query = q_query q, qr_results = []\<rparr> # rs2), w3)"
    using params one after(1) by simp
  then have whole: "PgVectorDataStore_query bk lib (qs1 @ q # qs2) w =
      (Inr (rs1 @ \<lparr>qr_query = q_query q, qr_results = []\<rparr> # rs2), w3)"
    using query_append [OF before(1), of "q # qs2"] by simp
  have logged: "LogError (Some e) \<in> set (log w3)"
    using after(3) by (simp add: logger_error_def)
  show ?thesis
    using before after(1,2) whole logged by auto
qed

theorem query_isolates_failing_query_witness:
  "fst (PgVectorDataStore_query picky_backend demo_lib
          [demo_query ''first'' ''d1'', demo_query ''second'' ''bad'', demo_query ''third'' ''d1'']
          world0) =
     Inr [\<lparr>qr_query = ''first'',
       qr_results =
         [\<lparr>chunk_id = Some ''A'', chunk_text = ''hello'',
           chunk_metadata =
             \<lparr>md_source = None, md_source_id = None, md_url = None, md_created_at = None,
              md_author = Some ''me'', md_document_id = Some ''d1''\<rparr>,
           chunk_embedding = None, chunk_score = 1\<rparr>]\<rparr>,
          \<lparr>qr_query = ''second'', qr_results = []\<rparr>,
          \<lparr>qr_query = ''third'',
       qr_results =
         [\<lparr>chunk_id = Some ''A'', chunk_text = ''hello'',
           chunk_metadata =
             \<lparr>md_source = None, md_source_id = None, md_url = None, md_created_at = None,
              md_author = Some ''me'', md_document_id = Some ''d1''\<rparr>,
           chunk_embedding = None, chunk_score = 1\<rparr>]\<rparr>]
   \<and> LogError (Some (BackendError ''malformed filter''))
       \<in> set (log (snd (PgVectorDataStore_query picky_backend demo_lib
          [demo_query ''first'' ''d1'', demo_query ''second'' ''bad'', demo_query ''third'' ''d1'']
          world0)))"
proof -
  let ?rpc = "\<lambda>d. Call (Rpc ''match_page_sections''
      [(''in_embedding'', PList []), (''in_match_count'', PInt 3), (''in_document_id'', PStr d)])"
  let ?found = "\<lambda>s. \<lparr>qr_query = s,
       qr_results =
         [\<lparr>chunk_id = Some ''A'', chunk_text = ''hello'',
           chunk_metadata =
             \<lparr>md_source = None, md_source_id = None, md_url = None, md_created_at = None,
              md_author = Some ''me'', md_document_id = Some ''d1''\<rparr>,
           chunk_embedding = None, chunk_score = 1\<rparr>]\<rparr>"
  have builds: "\<not> isl (query_params demo_lib q')"
    if "q' \<in> set ([demo_query ''first'' ''d1''] @ demo_query ''second'' ''bad''
                    # [demo_query ''third'' ''d1''])" for q'
    using that
    by (auto simp: query_params_def filter_params_def demo_query_def no_filter_def)
  have params: "query_params demo_lib (demo_query ''second'' ''bad'') =
      Inr [(''in_embedding'', PList []), (''in_match_count'', PInt 3),
           (''in_document_id'', PStr ''bad'')]"
    by (simp add: query_params_def filter_params_def demo_query_def no_filter_def)
  have before: "PgVectorDataStore_query picky_backend demo_lib [demo_query ''first'' ''d1'']
        world0 =
      (Inr [?found ''first''], \<lparr>now = 0, log = [?rpc ''d1'']\<rparr>)"
    by (simp add: query_one_def SupabaseClient_rpc_def param_isoformat_def has_key_def
        query_params_def filter_params_def demo_query_def no_filter_def execute_def
        picky_backend_def world0_def demo_row_def row_to_chunk_def dict_get_def demo_lib_def
        demo_new_DocumentChunkMetadata_def demo_new_DocumentChunkWithScore_def)
  have failing: "SupabaseClient_rpc picky_backend demo_lib ''match_page_sections''
        [(''in_embedding'', PList []), (''in_match_count'', PInt 3),
         (''in_document_id'', PStr ''bad'')]
        (snd (PgVectorDataStore_query picky_backend demo_lib [demo_query ''first'' ''d1'']
               world0)) =
      (Inl (BackendError ''malformed filter''), \<lparr>now = 0, log = [?rpc ''d1'', ?rpc ''bad'']\<rparr>)"
    unfolding before
    by (simp add: SupabaseClient_rpc_def param_isoformat_def has_key_def execute_def
        picky_backend_def)
  have after: "PgVectorDataStore_query picky_backend demo_lib [demo_query ''third'' ''d1'']
        (logger_error (Some (BackendError ''malformed filter''))
           \<lparr>now = 0, log = [?rpc ''d1'', ?rpc ''bad'']\<rparr>) =
      (Inr [?found ''third''],
       \<lparr>now = 0, log = [?rpc ''d1'', ?rpc ''bad'',
          LogError (Some (BackendError ''malformed filter'')), ?rpc ''d1'']\<rparr>)"
    by (simp add: query_one_def SupabaseClient_rpc_def param_isoformat_def has_key_def
        query_params_def filter_params_def demo_query_def no_filter_def execute_def
        picky_backend_def logger_error_def demo_row_def row_to_chunk_def dict_get_def
        demo_lib_def demo_new_DocumentChunkMetadata_def demo_new_DocumentChunkWithScore_def)
  have asked: "q_query (demo_query ''second'' ''bad'') = ''second''"
    by (simp add: demo_query_def)
  from query_isolates_failing_query [OF builds params failing]
  obtain rs1 rs2 w3 where run:
      "fst (PgVectorDataStore_query picky_backend demo_lib [demo_query ''first'' ''d1'']
              world0) = Inr rs1"
      "PgVectorDataStore_query picky_backend demo_lib [demo_query ''third'' ''d1'']
         (logger_error (Some (BackendError ''malformed filter''))
            \<lparr>now = 0, log = [?rpc ''d1'', ?rpc ''bad'']\<rparr>) = (Inr rs2, w3)"
      "PgVectorDataStore_query picky_backend demo_lib
         ([demo_query ''first'' ''d1''] @ demo_query ''second'' ''bad''
            # [demo_query ''third'' ''d1'']) world0 =
         (Inr (rs1 @ \<lparr>qr_query = q_query (demo_query ''second'' ''bad''), qr_results = []\<rparr>
                 # rs2), w3)"
      "LogError (Some (BackendError ''malformed filter'')) \<in> set (log w3)"
    by blast
  have "rs1 = [?found ''first'']" "rs2 = [?found ''third'']"
    using run(1,2) before after by simp_all
  with run(3,4) asked show ?thesis
    by (simp del: PgVectorDataStore_query.simps)
qed

text \<open>
  C2 as stated fails on a batch in which one query has a filter date that does not
  convert: the parameters are built before the \<open>try\<close>, the exception leaves \<open>_query\<close>,
  and the answer already obtained for the first query is lost with the batch.
\<close>

theorem query_malformed_date_counterexample:
  "PgVectorDataStore_query picky_backend demo_lib
     [demo_query ''first'' ''d1'',
      \<lparr>q_query = ''second'',
       q_filter = Some (no_filter\<lparr>flt_start_date := Some ''2023-02-30''\<rparr>),
       q_top_k = Some 3, q_embedding = []\<rparr>,
      demo_query ''third'' ''d1'']
     world0 =
   (Inl ValueError,
    \<lparr>now = 0,
     log = [Call (Rpc ''match_page_sections''
              [(''in_embedding'', PList []), (''in_match_count'', PInt 3),
               (''in_document_id'', PStr ''d1'')])]\<rparr>)"
  by (simp add: query_one_def SupabaseClient_rpc_def param_isoformat_def has_key_def
      query_params_def filter_params_def demo_query_def no_filter_def execute_def
      picky_backend_def world0_def demo_row_def row_to_chunk_def dict_get_def demo_lib_def
      demo_new_DocumentChunkMetadata_def demo_new_DocumentChunkWithScore_def
      to_datetime_def)

section \<open>The serialization adapter\<close>

lemma convert_None:
  "convert_object_to_serializable_json v = PNone \<longleftrightarrow> v = PNone"
  by (cases v) simp_all

lemma convert_properties:
  "enum_free (convert_object_to_serializable_json v)
   \<and> null_field_free (convert_object_to_serializable_json v)"
  "enum_free_items (convert_items kvs) \<and> null_field_free_items (convert_items kvs)"
  "enum_free_elems (convert_elems xs) \<and> null_field_free_elems (convert_elems xs)"
  by (induction v and kvs and xs
      rule: convert_object_to_serializable_json_convert_items_convert_elems.induct)
     (auto simp: convert_None)

lemma convert_items_comprehension:
  "convert_items kvs =
     map (\<lambda>(k, v). (k, convert_object_to_serializable_json v))
       (filter (\<lambda>(k, v). v \<noteq> PNone) kvs)"
  by (induction kvs) auto

lemma convert_elems_comprehension:
  "convert_elems xs = map convert_object_to_serializable_json xs"
  by (induction xs) auto

text \<open>
  C8, as the code has it. The adapter replaces an enum member by its value, keeps of a
  dict exactly the items whose value is not \<open>None\<close>, in their order and under their keys,
  with their values rewritten, and rewrites every element of a list. It has no case for
  timestamps: a datetime is returned as it is, and so is a tuple with whatever it holds,
  and every scalar. Hence, through dicts and lists at every depth, the result holds no
  enum member and no dict item whose value is \<open>None\<close>.
\<close>

theorem adapter_rewrites_enums_and_nulls:
  "convert_object_to_serializable_json (PEnum s) = PStr s
   \<and> convert_object_to_serializable_json (PDict kvs) =
       PDict (map (\<lambda>(k, v). (k, convert_object_to_serializable_json v))
                (filter (\<lambda>(k, v). v \<noteq> PNone) kvs))
   \<and> convert_object_to_serializable_json (PList xs) =
       PList (map convert_object_to_serializable_json xs)
   \<and> convert_object_to_serializable_json (PDatetime t) = PDatetime t
   \<and> convert_object_to_serializable_json (PTuple ys) = PTuple ys
   \<and> convert_object_to_serializable_json PNone = PNone
   \<and> convert_object_to_serializable_json (PBool b) = PBool b
   \<and> convert_object_to_serializable_json (PInt n) = PInt n
   \<and> convert_object_to_serializable_json (PFloat r) = PFloat r
   \<and> convert_object_to_serializable_json (PStr s') = PStr s'
   \<and> enum_free (convert_object_to_serializable_json v)
   \<and> null_field_free (convert_object_to_serializable_json v)"
  using convert_properties(1) [of v]
  by (simp add: convert_items_comprehension convert_elems_comprehension)

text \<open>
  C8 as stated fails on a record with a timestamp field: the enum member becomes its value
  and the \<open>None\<close> field is dropped, the datetime stays a datetime.
\<close>

theorem adapter_keeps_timestamp_counterexample:
  "convert_object_to_serializable_json
     (PDict [(''status'', PEnum ''NEW''), (''updated_at'', PDatetime 0), (''errors'', PNone)]) =
   PDict [(''status'', PStr ''NEW''), (''updated_at'', PDatetime 0)]"
  by simp

section \<open>Upsert\<close>

lemma map_of_convert_items:
  "map_of (convert_items kvs) k = Some v \<Longrightarrow>
     \<exists>v0. (k, v0) \<in> set kvs \<and> v = convert_object_to_serializable_json v0"
  by (induction kvs) (auto split: if_splits)

lemma to_datetime_is_datetime:
  assumes "to_datetime lib d = Inr dt"
  shows "\<exists>t. dt = PDatetime t"
proof (cases "to_unix_timestamp lib d")
  case (Inl e)
  with assms show ?thesis by (simp add: to_datetime_def)
next
  case (Inr t)
  with assms show ?thesis
    by (cases "fromtimestamp lib t") (auto simp: to_datetime_def)
qed

lemma ebind_Inr:
  "ebind x f = Inr y \<longleftrightarrow> (\<exists>z. x = Inr z \<and> f z = Inr y)"
  by (cases x) simp_all

lemma chunk_json_created_at:
  assumes "chunk_json lib d c = Inr json" "(''created_at'', v0) \<in> set json"
  shows "\<exists>t. v0 = PTuple [PDatetime t]"
  using assms to_datetime_is_datetime [of lib]
  by (auto simp: chunk_json_def Let_def ebind_Inr split: option.splits if_splits)

lemma chunk_row_builds:
  assumes "chunk_json lib d c = Inr json"
  shows "\<exists>row. created_at_isoformat lib (convert_items json) = Inr row"
proof (cases "has_key (convert_items json) ''created_at''")
  case False
  then show ?thesis by (simp add: created_at_isoformat_def)
next
  case True
  then obtain v where v: "map_of (convert_items json) ''created_at'' = Some v"
    by (auto simp: has_key_def)
  then obtain v0 where "(''created_at'', v0) \<in> set json"
      "v = convert_object_to_serializable_json v0"
    using map_of_convert_items by blast
  then obtain t where "v = PTuple [PDatetime t]"
    using chunk_json_created_at [OF assms] by fastforce
  with True v show ?thesis
    by (simp add: created_at_isoformat_def dict_get_def)
qed


lemma upsert_chunk:
  assumes json: "chunk_json lib d c = Inr json"
    and quiet: "\<forall>e. respond bk w (TableUpsert ''documents'' (PDict row)) = Inl e
                  \<longrightarrow> format_error lib e = None"
    and row: "chunk_row lib d c = Inr row"
  shows "SupabaseClient_upsert bk lib ''documents'' json w =
     (Inr (),
      (case respond bk w (TableUpsert ''documents'' (PDict row)) of
         Inl e \<Rightarrow> logger_error (Some e) (snd (execute bk (TableUpsert ''documents'' (PDict row)) w))
       | Inr data \<Rightarrow> snd (execute bk (TableUpsert ''documents'' (PDict row)) w)))"
proof -
  have "created_at_isoformat lib (convert_items json) = Inr row"
    using json row by (simp add: chunk_row_def)
  then show ?thesis
    using quiet
    by (auto simp: SupabaseClient_upsert_def execute_def split: sum.splits option.splits)
qed

lemma chunk_row_exists:
  assumes "\<not> isl (chunk_json lib d c)"
  shows "\<exists>row. chunk_row lib d c = Inr row"
proof -
  obtain json where json: "chunk_json lib d c = Inr json"
    using assms by (cases "chunk_json lib d c") simp_all
  with chunk_row_builds [OF json] show ?thesis
    by (simp add: chunk_row_def)
qed


lemma calls_of_append: "calls_of (xs @ ys) = calls_of xs @ calls_of ys"
  by (induction xs rule: calls_of.induct) simp_all

lemma upsert_chunk_trace:
  assumes json: "chunk_json lib d c = Inr json"
    and quiet: "\<forall>u call e. respond bk u call = Inl e \<longrightarrow> format_error lib e = None"
    and row: "chunk_row lib d c = Inr row"
  shows "\<exists>w' l. SupabaseClient_upsert bk lib ''documents'' json w = (Inr (), w')
           \<and> log w' = log w @ l
           \<and> calls_of l = [TableUpsert ''documents'' (PDict row)]"
proof -
  have q: "\<forall>e. respond bk w (TableUpsert ''documents'' (PDict row)) = Inl e
             \<longrightarrow> format_error lib e = None"
    using quiet by blast
  note sent = upsert_chunk [OF json q row]
  show ?thesis
  proof (cases "respond bk w (TableUpsert ''documents'' (PDict row))")
    case (Inl e)
    with sent show ?thesis
      by (simp add: logger_error_def execute_def)
  next
    case (Inr data)
    with sent show ?thesis
      by (simp add: execute_def)
  qed
qed

lemma upsert_document_chunks_trace:
  assumes builds: "\<forall>c \<in> set cs. \<not> isl (chunk_json lib d c)"
    and quiet: "\<forall>u call e. respond bk u call = Inl e \<longrightarrow> format_error lib e = None"
  shows "\<exists>w' l rows. upsert_document_chunks bk lib d cs w = (Inr (), w')
           \<and> log w' = log w @ l
           \<and> list_all2 (\<lambda>c row. chunk_row lib d c = Inr row) cs rows
           \<and> calls_of l = map (\<lambda>row. TableUpsert ''documents'' (PDict row)) rows"
  using builds
proof (induction cs arbitrary: w)
  case Nil
  then show ?case by simp
next
  case (Cons c cs)
  obtain json where json: "chunk_json lib d c = Inr json"
    using Cons.prems by (cases "chunk_json lib d c") simp_all
  obtain row where row: "chunk_row lib d c = Inr row"
    using chunk_row_exists [of lib d c] Cons.prems by auto
  obtain w1 l1 where first: "SupabaseClient_upsert bk lib ''documents'' json w = (Inr (), w1)"
      "log w1 = log w @ l1" "calls_of l1 = [TableUpsert ''documents'' (PDict row)]"
    using upsert_chunk_trace [OF json quiet row] by blast
  obtain w2 l2 rows where rest: "upsert_document_chunks bk lib d cs w1 = (Inr (), w2)"
      "log w2 = log w1 @ l2"
      "list_all2 (\<lambda>c row. chunk_row lib d c = Inr row) cs rows"
      "calls_of l2 = map (\<lambda>row. TableUpsert ''documents'' (PDict row)) rows"
    using Cons.IH [of w1] Cons.prems by auto
  show ?case
    using json row first rest
    by (intro exI [of _ w2] exI [of _ "l1 @ l2"] exI [of _ "row # rows"])
       (simp add: calls_of_append)
qed

lemma upsert_items_trace:
  assumes builds: "\<forall>(d, cs) \<in> set items. \<forall>c \<in> set cs. \<not> isl (chunk_json lib d c)"
    and quiet: "\<forall>u call e. respond bk u call = Inl e \<longrightarrow> format_error lib e = None"
  shows "\<exists>w' l rows. upsert_items bk lib items w = (Inr (), w')
           \<and> log w' = log w @ l
           \<and> list_all2 (\<lambda>(d, c) row. chunk_row lib d c = Inr row)
                 (concat (map (\<lambda>(d, cs). map (Pair d) cs) items)) rows
           \<and> calls_of l = map (\<lambda>row. TableUpsert ''documents'' (PDict row)) rows"
  using builds
proof (induction items arbitrary: w)
  case Nil
  then show ?case by simp
next
  case (Cons item items)
  obtain d cs where item: "item = (d, cs)"
    by (cases item)
  have "\<forall>c \<in> set cs. \<not> isl (chunk_json lib d c)"
    using Cons.prems item by simp
  from upsert_document_chunks_trace [OF this quiet, where w = w]
  obtain w1 l1 rows1 where first: "upsert_document_chunks bk lib d cs w = (Inr (), w1)"
      "log w1 = log w @ l1"
      "list_all2 (\<lambda>c row. chunk_row lib d c = Inr row) cs rows1"
      "calls_of l1 = map (\<lambda>row. TableUpsert ''documents'' (PDict row)) rows1"
    by blast
  obtain w2 l2 rows2 where rest: "upsert_items bk lib items w1 = (Inr (), w2)"
      "log w2 = log w1 @ l2"
      "list_all2 (\<lambda>(d, c) row. chunk_row lib d c = Inr row)
         (concat (map (\<lambda>(d, cs). map (Pair d) cs) items)) rows2"
      "calls_of l2 = map (\<lambda>row. TableUpsert ''documents'' (PDict row)) rows2"
    using Cons.IH [of w1] Cons.prems by auto
  have "list_all2 (\<lambda>(d, c) row. chunk_row lib d c = Inr row) (map (Pair d) cs) rows1"
    using first(3) by (simp add: list_all2_map1)
  then have "list_all2 (\<lambda>(d, c) row. chunk_row lib d c = Inr row)
      (concat (map (\<lambda>(d, cs). map (Pair d) cs) (item # items))) (rows1 @ rows2)"
    using rest(3) item by (simp add: list_all2_appendI)
  then show ?case
    using item first rest
    by (intro exI [of _ w2] exI [of _ "l1 @ l2"] exI [of _ "rows1 @ rows2"])
       (simp add: calls_of_append)
qed

lemma keys_dict_set:
  "map fst (dict_set kvs k v) =
     (if k \<in> set (map fst kvs) then map fst kvs else map fst kvs @ [k])"
proof (induction kvs)
  case Nil
  then show ?case by simp
next
  case (Cons kv kvs)
  obtain k0 v0 where kv: "kv = (k0, v0)"
    by (cases kv)
  show ?case
  proof (cases "k0 = k")
    case True
    with kv show ?thesis by simp
  next
    case False
    with kv Cons.IH show ?thesis by simp
  qed
qed

lemma distinct_dict_set:
  "distinct (map fst kvs) \<Longrightarrow> distinct (map fst (dict_set kvs k v))"
  by (simp add: keys_dict_set)

lemma map_of_dict_set:
  "map_of (dict_set kvs k v) k' = (if k' = k then Some v else map_of kvs k')"
  by (induction kvs) auto

lemma map_of_convert_items_distinct:
  assumes "distinct (map fst kvs)" "map_of kvs k = Some v" "v \<noteq> PNone"
  shows "map_of (convert_items kvs) k = Some (convert_object_to_serializable_json v)"
  using assms
proof (induction kvs)
  case Nil
  then show ?case by simp
next
  case (Cons kv kvs)
  obtain k0 v0 where kv: "kv = (k0, v0)"
    by (cases kv)
  show ?case
  proof (cases "k0 = k")
    case True
    with Cons.prems kv show ?thesis by simp
  next
    case False
    with Cons kv show ?thesis by simp
  qed
qed

lemma chunk_row_fields:
  assumes "chunk_row lib d c = Inr row"
  shows "map_of row ''document_id'' = Some (PStr d)
       \<and> map_of row ''content'' = Some (PStr (chunk_text c))"
proof -
  obtain json where json: "chunk_json lib d c = Inr json"
      and row: "created_at_isoformat lib (convert_items json) = Inr row"
    using assms by (auto simp: chunk_row_def ebind_Inr)
  have "distinct (map fst json) \<and> map_of json ''document_id'' = Some (PStr d)
      \<and> map_of json ''content'' = Some (PStr (chunk_text c))"
    using json
    by (auto simp: chunk_json_def Let_def ebind_Inr map_of_dict_set
        split: option.splits if_splits intro!: distinct_dict_set)
  then have "map_of (convert_items json) ''document_id'' = Some (PStr d)
      \<and> map_of (convert_items json) ''content'' = Some (PStr (chunk_text c))"
    using map_of_convert_items_distinct [of json] by fastforce
  then show ?thesis
    using row
    by (auto simp: created_at_isoformat_def ebind_Inr map_of_dict_set split: if_splits)
qed

text \<open>
  C3, as the code has it. \<open>_upsert\<close> has no handler of its own; the client's \<open>upsert\<close>
  catches the exception of the write request and logs it. So for a batch whose rows can
  all be built, on a backend whose exceptions the logger can format: \<open>_upsert\<close> returns
  the document ids, and the requests it leaves in the trace are, in the order of the
  chunks, one upsert into \<open>documents\<close> per chunk carrying that chunk's row. A write that
  the backend answers with an exception returns normally, leaving the request and the
  logged exception in the trace. The row of a chunk holds its document id and its text.
\<close>

theorem upsert_catches_backend_error:
  assumes builds: "\<forall>(d, cs) \<in> set chunks. \<forall>c \<in> set cs. \<not> isl (chunk_json lib d c)"
    and quiet: "\<forall>u call e. respond bk u call = Inl e \<longrightarrow> format_error lib e = None"
  shows "(\<exists>w' l rows.
            PgVectorDataStore_upsert bk lib chunks w = (Inr (map fst chunks), w')
          \<and> log w' = log w @ l
          \<and> list_all2 (\<lambda>(d, c) row. chunk_row lib d c = Inr row)
                (concat (map (\<lambda>(d, cs). map (Pair d) cs) chunks)) rows
          \<and> calls_of l = map (\<lambda>row. TableUpsert ''documents'' (PDict row)) rows)
       \<and> (chunk_json lib d c = Inr json \<and> chunk_row lib d c = Inr row
            \<and> respond bk u (TableUpsert ''documents'' (PDict row)) = Inl e \<longrightarrow>
          SupabaseClient_upsert bk lib ''documents'' json u =
            (Inr (), logger_error (Some e)
                       (snd (execute bk (TableUpsert ''documents'' (PDict row)) u))))
       \<and> (chunk_row lib d c = Inr row \<longrightarrow>
            map_of row ''document_id'' = Some (PStr d)
          \<and> map_of row ''content'' = Some (PStr (chunk_text c)))"
proof -
  obtain w' l rows where "upsert_items bk lib chunks w = (Inr (), w')"
      "log w' = log w @ l"
      "list_all2 (\<lambda>(d, c) row. chunk_row lib d c = Inr row)
         (concat (map (\<lambda>(d, cs). map (Pair d) cs) chunks)) rows"
      "calls_of l = map (\<lambda>row. TableUpsert ''documents'' (PDict row)) rows"
    using upsert_items_trace [OF builds quiet] by blast
  then have batch: "\<exists>w' l rows.
            PgVectorDataStore_upsert bk lib chunks w = (Inr (map fst chunks), w')
          \<and> log w' = log w @ l
          \<and> list_all2 (\<lambda>(d, c) row. chunk_row lib d c = Inr row)
                (concat (map (\<lambda>(d, cs). map (Pair d) cs) chunks)) rows
          \<and> calls_of l = map (\<lambda>row. TableUpsert ''documents'' (PDict row)) rows"
    by (auto simp: PgVectorDataStore_upsert_def)
  have single: "SupabaseClient_upsert bk lib ''documents'' json u =
            (Inr (), logger_error (Some e)
                       (snd (execute bk (TableUpsert ''documents'' (PDict row)) u)))"
    if json: "chunk_json lib d c = Inr json" and row: "chunk_row lib d c = Inr row"
      and raised: "respond bk u (TableUpsert ''documents'' (PDict row)) = Inl e"
  proof -
    have q: "\<forall>e'. respond bk u (TableUpsert ''documents'' (PDict row)) = Inl e'
               \<longrightarrow> format_error lib e' = None"
      using quiet by blast
    show ?thesis
      using upsert_chunk [OF json q row] raised by simp
  qed
  show ?thesis
    using batch single chunk_row_fields [of lib d c row] by blast
qed


theorem upsert_catches_backend_error_witness:
  "fst (PgVectorDataStore_upsert (const_backend (Inl (BackendError ''down''))) demo_lib
          [(''doc1'', [demo_chunk ''A'', demo_chunk ''B''])] world0) = Inr [''doc1'']"
proof -
  let ?bk = "const_backend (Inl (BackendError ''down''))"
  let ?chunks = "[(''doc1'', [demo_chunk ''A'', demo_chunk ''B''])]"
  have builds: "\<forall>(d, cs) \<in> set ?chunks. \<forall>c \<in> set cs. \<not> isl (chunk_json demo_lib d c)"
    by (simp add: chunk_json_def demo_chunk_def to_datetime_def demo_lib_def)
  have quiet: "\<forall>u call e. respond ?bk u call = Inl e \<longrightarrow> format_error demo_lib e = None"
    by (auto simp: const_backend_def demo_lib_def)
  from upsert_catches_backend_error [OF builds quiet, where w = world0, THEN conjunct1]
  show ?thesis by auto
qed

text \<open>
  C3 as stated fails on a backend that rejects every write: both chunk writes raise, both
  exceptions are logged, and the operation returns the document id as if it had succeeded.
\<close>

theorem upsert_swallows_backend_error_counterexample:
  "PgVectorDataStore_upsert (const_backend (Inl (BackendError ''down''))) demo_lib
     [(''doc1'', [demo_chunk ''A'', demo_chunk ''B''])] world0 =
   (Inr [''doc1''],
    \<lparr>now = 0,
     log =
       [Call (TableUpsert ''documents''
           (PDict
             [(''id'', PStr ''A''), (''content'', PStr ''hello''),
              (''document_id'', PStr ''doc1''), (''source'', PStr ''FILE''),
              (''created_at'', PStr ''T'')])),
        LogError (Some (BackendError ''down'')),
        Call (TableUpsert ''documents''
           (PDict
             [(''id'', PStr ''B''), (''content'', PStr ''hello''),
              (''document_id'', PStr ''doc1''), (''source'', PStr ''FILE''),
              (''created_at'', PStr ''T'')])),
        LogError (Some (BackendError ''down''))]\<rparr>)"
  by code_simp

text \<open>
  Outside the hypotheses of C3's theorem. A backend exception whose text holds a brace
  makes the handler's logging call raise: that exception leaves \<open>_upsert\<close>, nothing is
  logged and the second chunk is not sent. A chunk whose date does not convert raises
  before anything is sent.
\<close>

lemma upsert_handler_raises:
  "PgVectorDataStore_upsert (const_backend (Inl (BackendError ''{code: 500}''))) demo_lib
     [(''doc1'', [demo_chunk ''A'', demo_chunk ''B''])] world0 =
   (Inl (KeyError ''{code: 500}''),
    \<lparr>now = 0,
     log =
       [Call (TableUpsert ''documents''
           (PDict
             [(''id'', PStr ''A''), (''content'', PStr ''hello''),
              (''document_id'', PStr ''doc1''), (''source'', PStr ''FILE''),
              (''created_at'', PStr ''T'')]))]\<rparr>)"
  by code_simp

lemma upsert_malformed_date:
  "PgVectorDataStore_upsert (const_backend (Inr [])) demo_lib
     [(''doc1'', [(demo_chunk ''A'')\<lparr>chunk_metadata :=
         (chunk_metadata (demo_chunk ''A''))\<lparr>md_created_at := Some ''2023-02-30''\<rparr>\<rparr>])]
     world0 =
   (Inl ValueError, \<lparr>now = 0, log = []\<rparr>)"
  by code_simp

section \<open>Filter translation\<close>

lemma Source_value_true: "Source_value s \<noteq> []"
  by (cases s) simp_all

lemma dict_set_fresh:
  "k \<notin> set (map fst kvs) \<Longrightarrow> dict_set kvs k v = kvs @ [(k, v)]"
  by (induction kvs) auto

lemma str_param:
  "k \<notin> set (map fst p) \<Longrightarrow>
     (case x of None \<Rightarrow> p | Some d \<Rightarrow> if d \<noteq> [] then dict_set p k (g d) else p) =
     p @ (case nonempty x of None \<Rightarrow> [] | Some d \<Rightarrow> [(k, g d)])"
  by (cases x) (simp_all add: dict_set_fresh)

lemma source_param:
  "k \<notin> set (map fst p) \<Longrightarrow>
     (case x of None \<Rightarrow> p
      | Some s \<Rightarrow> if truthy (PEnum (Source_value s)) then dict_set p k (g s) else p) =
     p @ (case x of None \<Rightarrow> [] | Some s \<Rightarrow> [(k, g s)])"
  by (cases x) (simp_all add: dict_set_fresh Source_value_true)

lemma count_param:
  "k \<notin> set (map fst p) \<Longrightarrow>
     (case x of None \<Rightarrow> p | Some (n::int) \<Rightarrow> if n \<noteq> 0 then dict_set p k (g n) else p) =
     p @ (case x of None \<Rightarrow> [] | Some n \<Rightarrow> if n = 0 then [] else [(k, g n)])"
  by (cases x) (simp_all add: dict_set_fresh)

lemma date_step:
  "k \<notin> set (map fst p) \<Longrightarrow>
     (case x of
        None \<Rightarrow> Inr p
      | Some d \<Rightarrow> if d \<noteq> []
                 then ebind (to_datetime lib d) (\<lambda>dt. Inr (dict_set p k dt))
                 else Inr p) =
     ebind (date_param lib x)
       (\<lambda>sd. Inr (p @ (case sd of None \<Rightarrow> [] | Some dt \<Rightarrow> [(k, dt)])))"
proof (cases x)
  case None
  then show ?thesis by simp
next
  case (Some d)
  assume fresh: "k \<notin> set (map fst p)"
  show ?thesis
  proof (cases "d = []")
    case True
    with Some show ?thesis by simp
  next
    case False
    with Some fresh show ?thesis
      by (cases "to_datetime lib d") (simp_all add: dict_set_fresh)
  qed
qed

lemma ebind_assoc: "ebind (ebind x f) g = ebind x (\<lambda>y. ebind (f y) g)"
  by (cases x) simp_all

lemma filter_params_normal_form:
  assumes "set (map fst params) \<subseteq> {''in_embedding'', ''in_match_count''}"
  shows "filter_params lib f params =
     ebind (date_param lib (flt_start_date f)) (\<lambda>sd.
     ebind (date_param lib (flt_end_date f)) (\<lambda>ed.
       Inr (params
          @ (case nonempty (flt_document_id f) of
               None \<Rightarrow> [] | Some d \<Rightarrow> [(''in_document_id'', PStr d)])
          @ (case flt_source f of
               None \<Rightarrow> [] | Some s \<Rightarrow> [(''in_source'', PStr (Source_value s))])
          @ (case nonempty (flt_source_id f) of
               None \<Rightarrow> [] | Some d \<Rightarrow> [(''in_source_id'', PStr d)])
          @ (case nonempty (flt_author f) of
               None \<Rightarrow> [] | Some a \<Rightarrow> [(''in_author'', PStr a)])
          @ (case sd of None \<Rightarrow> [] | Some dt \<Rightarrow> [(''in_start_date'', dt)])
          @ (case ed of None \<Rightarrow> [] | Some dt \<Rightarrow> [(''in_end_date'', dt)]))))"
proof -
  have fresh: "''in_document_id'' \<notin> fst ` set params" "''in_source'' \<notin> fst ` set params"
      "''in_source_id'' \<notin> fst ` set params" "''in_author'' \<notin> fst ` set params"
      "''in_start_date'' \<notin> fst ` set params" "''in_end_date'' \<notin> fst ` set params"
    using assms by auto
  define p1 where "p1 = params @ (case nonempty (flt_document_id f) of
               None \<Rightarrow> [] | Some d \<Rightarrow> [(''in_document_id'', PStr d)])"
  define p2 where "p2 = p1 @ (case flt_source f of
               None \<Rightarrow> [] | Some s \<Rightarrow> [(''in_source'', PStr (Source_value s))])"
  define p3 where "p3 = p2 @ (case nonempty (flt_source_id f) of
               None \<Rightarrow> [] | Some d \<Rightarrow> [(''in_source_id'', PStr d)])"
  define p4 where "p4 = p3 @ (case nonempty (flt_author f) of
               None \<Rightarrow> [] | Some a \<Rightarrow> [(''in_author'', PStr a)])"
  have s1: "(case flt_document_id f of None \<Rightarrow> params
      | Some d \<Rightarrow> if d \<noteq> [] then dict_set params ''in_document_id'' (PStr d) else params) = p1"
    unfolding p1_def by (rule str_param) (simp add: fresh)
  have s2: "(case flt_source f of None \<Rightarrow> p1
      | Some s \<Rightarrow> if truthy (PEnum (Source_value s))
                 then dict_set p1 ''in_source'' (PStr (Source_value s)) else p1) = p2"
    unfolding p2_def by (rule source_param) (auto simp: p1_def fresh split: option.splits)
  have s3: "(case flt_source_id f of None \<Rightarrow> p2
      | Some d \<Rightarrow> if d \<noteq> [] then dict_set p2 ''in_source_id'' (PStr d) else p2) = p3"
    unfolding p3_def
    by (rule str_param) (auto simp: p2_def p1_def fresh split: option.splits)
  have s4: "(case flt_author f of None \<Rightarrow> p3
      | Some a \<Rightarrow> if a \<noteq> [] then dict_set p3 ''in_author'' (PStr a) else p3) = p4"
    unfolding p4_def
    by (rule str_param) (auto simp: p3_def p2_def p1_def fresh split: option.splits)
  have k5: "''in_start_date'' \<notin> set (map fst p4)"
    by (auto simp: p4_def p3_def p2_def p1_def fresh split: option.splits)
  have k6: "''in_end_date'' \<notin> set (map fst
      (p4 @ (case sd of None \<Rightarrow> [] | Some dt \<Rightarrow> [(''in_start_date'', dt)])))" for sd
    by (auto simp: p4_def p3_def p2_def p1_def fresh split: option.splits)
  have "filter_params lib f params =
      ebind (date_param lib (flt_start_date f)) (\<lambda>sd.
      ebind (date_param lib (flt_end_date f)) (\<lambda>ed.
        Inr ((p4 @ (case sd of None \<Rightarrow> [] | Some dt \<Rightarrow> [(''in_start_date'', dt)]))
             @ (case ed of None \<Rightarrow> [] | Some dt \<Rightarrow> [(''in_end_date'', dt)]))))"
    unfolding filter_params_def Let_def s1 s2 s3 s4
    by (simp add: date_step [OF k5] date_step [OF k6] ebind_assoc)
  then show ?thesis
    by (simp add: p4_def p3_def p2_def p1_def)
qed

lemma query_params_normal_form:
  assumes "q_filter q = Some f"
  shows "query_params lib q =
     ebind (date_param lib (flt_start_date f)) (\<lambda>sd.
     ebind (date_param lib (flt_end_date f)) (\<lambda>ed.
       Inr ([(''in_embedding'', PList (map PFloat (q_embedding q)))]
          @ (case q_top_k q of
               None \<Rightarrow> [] | Some k \<Rightarrow> if k = 0 then [] else [(''in_match_count'', PInt k)])
          @ (case nonempty (flt_document_id f) of
               None \<Rightarrow> [] | Some d \<Rightarrow> [(''in_document_id'', PStr d)])
          @ (case flt_source f of
               None \<Rightarrow> [] | Some s \<Rightarrow> [(''in_source'', PStr (Source_value s))])
          @ (case nonempty (flt_source_id f) of
               None \<Rightarrow> [] | Some d \<Rightarrow> [(''in_source_id'', PStr d)])
          @ (case nonempty (flt_author f) of
               None \<Rightarrow> [] | Some a \<Rightarrow> [(''in_author'', PStr a)])
          @ (case sd of None \<Rightarrow> [] | Some dt \<Rightarrow> [(''in_start_date'', dt)])
          @ (case ed of None \<Rightarrow> [] | Some dt \<Rightarrow> [(''in_end_date'', dt)]))))"
proof -
  define params1 where "params1 = [(''in_embedding'', PList (map PFloat (q_embedding q)))]
      @ (case q_top_k q of
           None \<Rightarrow> [] | Some k \<Rightarrow> if k = 0 then [] else [(''in_match_count'', PInt k)])"
  have c: "(case q_top_k q of
        None \<Rightarrow> [(''in_embedding'', PList (map PFloat (q_embedding q)))]
      | Some k \<Rightarrow> if k \<noteq> 0
          then dict_set [(''in_embedding'', PList (map PFloat (q_embedding q)))]
                 ''in_match_count'' (PInt k)
          else [(''in_embedding'', PList (map PFloat (q_embedding q)))]) = params1"
    unfolding params1_def by (rule count_param) simp
  have keys: "set (map fst params1) \<subseteq> {''in_embedding'', ''in_match_count''}"
    by (auto simp: params1_def split: option.splits if_splits)
  have "query_params lib q = filter_params lib f params1"
    using assms by (simp add: query_params_def Let_def c)
  also note filter_params_normal_form [OF keys]
  finally show ?thesis
    by (simp add: params1_def)
qed

lemma first_predicate:
  "(if truthy_str x then [Eq k (opt_str x)] else []) =
     (case nonempty x of None \<Rightarrow> [] | Some d \<Rightarrow> [Eq k (PStr d)])"
  by (cases x) simp_all

lemma next_predicate:
  "(if truthy_str x then b @ [Eq k (opt_str x)] else b) =
     b @ (case nonempty x of None \<Rightarrow> [] | Some d \<Rightarrow> [Eq k (PStr d)])"
  by (cases x) simp_all

lemma source_predicate:
  "(if truthy (opt_Source x) then b @ [Eq k (opt_Source x)] else b) =
     b @ (case x of None \<Rightarrow> [] | Some s \<Rightarrow> [Eq k (PEnum (Source_value s))])"
  by (cases x) (simp_all add: Source_value_true)

lemma truthy_str_nonempty: "truthy_str x \<longleftrightarrow> nonempty x \<noteq> None"
  by (cases x) simp_all

lemma filter_predicates_without_dates:
  assumes "nonempty (flt_start_date f) = None" "nonempty (flt_end_date f) = None"
  shows "filter_predicates lib f =
     Inr ((case nonempty (flt_document_id f) of
             None \<Rightarrow> [] | Some d \<Rightarrow> [Eq ''document_id'' (PStr d)])
        @ (case flt_source f of
             None \<Rightarrow> [] | Some s \<Rightarrow> [Eq ''source'' (PEnum (Source_value s))])
        @ (case nonempty (flt_source_id f) of
             None \<Rightarrow> [] | Some d \<Rightarrow> [Eq ''source_id'' (PStr d)])
        @ (case nonempty (flt_author f) of
             None \<Rightarrow> [] | Some a \<Rightarrow> [Eq ''author'' (PStr a)]))"
proof -
  have dates: "\<not> truthy_str (flt_start_date f)" "\<not> truthy_str (flt_end_date f)"
    using assms by (simp_all add: truthy_str_nonempty)
  show ?thesis
    unfolding filter_predicates_def Let_def
    by (simp only: dates if_False ebind.simps first_predicate next_predicate
        source_predicate) simp
qed

text \<open>
  C7, as the code has it. For a query with a filter, when no date conversion raises, the
  parameters are the embedding, the match count when it is not zero, and then, in the
  order of the fields, one entry for each filter field that is true in Python's sense:
  present and, for a string, not empty. The entry is named after the field and holds the string, the
  value of the enum member, or the datetime of the date; nothing else is in the
  parameters. The dates that are true are converted, the start date before the end date,
  and a conversion that raises makes the whole translation raise. For a filter without
  dates the delete request carries the equality predicates of the fields that are true,
  in the order of the fields, and nothing else.
\<close>

theorem filter_translation_emits_true_fields:
  assumes "q_filter q = Some f"
  shows "query_params lib q =
           ebind (date_param lib (flt_start_date f)) (\<lambda>sd.
           ebind (date_param lib (flt_end_date f)) (\<lambda>ed.
             Inr ([(''in_embedding'', PList (map PFloat (q_embedding q)))]
                @ (case q_top_k q of
                     None \<Rightarrow> []
                   | Some k \<Rightarrow> if k = 0 then [] else [(''in_match_count'', PInt k)])
                @ (case nonempty (flt_document_id f) of
                     None \<Rightarrow> [] | Some d \<Rightarrow> [(''in_document_id'', PStr d)])
                @ (case flt_source f of
                     None \<Rightarrow> [] | Some s \<Rightarrow> [(''in_source'', PStr (Source_value s))])
                @ (case nonempty (flt_source_id f) of
                     None \<Rightarrow> [] | Some d \<Rightarrow> [(''in_source_id'', PStr d)])
                @ (case nonempty (flt_author f) of
                     None \<Rightarrow> [] | Some a \<Rightarrow> [(''in_author'', PStr a)])
                @ (case sd of None \<Rightarrow> [] | Some dt \<Rightarrow> [(''in_start_date'', dt)])
                @ (case ed of None \<Rightarrow> [] | Some dt \<Rightarrow> [(''in_end_date'', dt)]))))
       \<and> (nonempty (flt_start_date f) = None \<and> nonempty (flt_end_date f) = None \<longrightarrow>
            filter_predicates lib f =
              Inr ((case nonempty (flt_document_id f) of
                      None \<Rightarrow> [] | Some d \<Rightarrow> [Eq ''document_id'' (PStr d)])
                 @ (case flt_source f of
                      None \<Rightarrow> [] | Some s \<Rightarrow> [Eq ''source'' (PEnum (Source_value s))])
                 @ (case nonempty (flt_source_id f) of
                      None \<Rightarrow> [] | Some d \<Rightarrow> [Eq ''source_id'' (PStr d)])
                 @ (case nonempty (flt_author f) of
                      None \<Rightarrow> [] | Some a \<Rightarrow> [Eq ''author'' (PStr a)])))"
  using query_params_normal_form [OF assms, of lib] filter_predicates_without_dates [of f lib]
  by blast

theorem filter_translation_emits_true_fields_witness:
  "query_params demo_lib
     \<lparr>q_query = ''q'', q_filter = Some demo_filter, q_top_k = Some 3, q_embedding = [1]\<rparr> =
     Inr [(''in_embedding'', PList [PFloat 1]), (''in_match_count'', PInt 3),
          (''in_document_id'', PStr ''d1''), (''in_source'', PStr ''CHAT''),
          (''in_author'', PStr ''me''), (''in_start_date'', PDatetime 10)]
   \<and> query_params demo_lib
       \<lparr>q_query = ''q'', q_filter = Some (demo_filter\<lparr>flt_end_date := Some ''2023-02-30''\<rparr>),
        q_top_k = Some 3, q_embedding = [1]\<rparr> = Inl ValueError
   \<and> filter_predicates demo_lib (demo_filter\<lparr>flt_start_date := None\<rparr>) =
       Inr [Eq ''document_id'' (PStr ''d1''), Eq ''source'' (PEnum ''CHAT''),
            Eq ''author'' (PStr ''me'')]"
  using
    filter_translation_emits_true_fields [of
      "\<lparr>q_query = ''q'', q_filter = Some demo_filter, q_top_k = Some 3, q_embedding = [1]\<rparr>"
      demo_filter demo_lib]
    filter_translation_emits_true_fields [of
      "\<lparr>q_query = ''q'', q_filter = Some (demo_filter\<lparr>flt_end_date := Some ''2023-02-30''\<rparr>),
        q_top_k = Some 3, q_embedding = [1]\<rparr>"
      "demo_filter\<lparr>flt_end_date := Some ''2023-02-30''\<rparr>" demo_lib]
    filter_translation_emits_true_fields [of
      "\<lparr>q_query = ''q'', q_filter = Some (demo_filter\<lparr>flt_start_date := None\<rparr>),
        q_top_k = Some 3, q_embedding = [1]\<rparr>"
      "demo_filter\<lparr>flt_start_date := None\<rparr>" demo_lib]
  by (simp add: demo_filter_def demo_lib_def to_datetime_def)

text \<open>
  C7 as stated fails for a field that is present and empty: the filter has a document id,
  the parameters have no \<open>in_document_id\<close>.
\<close>

theorem filter_translation_empty_string_counterexample:
  "q_filter (demo_query ''q'' []) = Some (no_filter\<lparr>flt_document_id := Some []\<rparr>)
   \<and> flt_document_id (no_filter\<lparr>flt_document_id := Some []\<rparr>) \<noteq> None
   \<and> query_params demo_lib (demo_query ''q'' []) =
       Inr [(''in_embedding'', PList []), (''in_match_count'', PInt 3)]"
  by (simp add: demo_query_def query_params_def filter_params_def no_filter_def)

text \<open>
  Outside C7's theorem. A filter with a date makes \<open>delete_by_filters\<close> raise before any
  request is sent (\<open>[0]\<close> of the date string is a character, which has no \<open>isoformat\<close>);
  \<open>delete\<close> answers \<open>False\<close>.
\<close>

lemma delete_by_filters_with_date:
  "PgVectorDataStore_delete (const_backend (Inr [])) demo_lib None (Some demo_filter) None world0 =
     (False, world0)"
  by code_simp

end
